theory Spec2Isabelle
  imports Complex_Main "HOL-Library.Sublist"
begin

section \<open>Python values\<close>

text \<open>
  The analysis pipeline works on JSON-like Python values: the payload handed to the
  sanitizer is a \<open>dict[str, Any]\<close> decoded from model output. A dict is an association
  list in insertion order, read with \<open>dict_get\<close> (Python's \<open>d.get(k)\<close>, \<open>None\<close> for a
  missing key).

  A Python float is one of the finite values, the two infinities, or NaN. Finite values
  are the real numbers they denote: the error of binary rounding in \<open>+\<close>, \<open>-\<close> and \<open>/\<close> is
  not part of the model, while every comparison with NaN is false, as in Python.
\<close>

datatype py_error =
  TypeError | ValueError | OverflowError | KeyError | AttributeError | ZeroDivisionError

datatype pyfloat = Fin real | PosInf | NegInf | NaN

datatype pyval =
    PNone
  | PBool bool
  | PInt int
  | PFloat pyfloat
  | PStr string
  | PList "pyval list"
  | PTuple "pyval list"
  | PDict "(string \<times> pyval) list"

type_synonym pydict = "(string \<times> pyval) list"

text \<open>
  Three library functions are parameters of the model, since their full definition
  lives in the interpreter: \<open>float(s)\<close> on a string (\<open>None\<close> stands for its
  \<open>ValueError\<close>), \<open>str(v)\<close> on a value that is not already a string, and \<open>json.loads\<close>
  (\<open>None\<close> stands for its \<open>JSONDecodeError\<close>).
\<close>

record builtins =
  float_of_str :: "string \<Rightarrow> pyfloat option"
  str_of :: "pyval \<Rightarrow> string"
  json_loads :: "string \<Rightarrow> pyval option"

subsection \<open>Float arithmetic and comparison\<close>

fun flt :: "pyfloat \<Rightarrow> pyfloat \<Rightarrow> bool" where
  "flt (Fin x) (Fin y) = (x < y)"
| "flt (Fin x) PosInf = True"
| "flt NegInf (Fin y) = True"
| "flt NegInf PosInf = True"
| "flt _ _ = False"

definition fgt :: "pyfloat \<Rightarrow> pyfloat \<Rightarrow> bool" where
  "fgt a b = flt b a"

definition fle :: "pyfloat \<Rightarrow> pyfloat \<Rightarrow> bool" where
  "fle a b = (a \<noteq> NaN \<and> b \<noteq> NaN \<and> \<not> flt b a)"

fun fneg :: "pyfloat \<Rightarrow> pyfloat" where
  "fneg (Fin x) = Fin (- x)"
| "fneg PosInf = NegInf"
| "fneg NegInf = PosInf"
| "fneg NaN = NaN"

fun fadd :: "pyfloat \<Rightarrow> pyfloat \<Rightarrow> pyfloat" where
  "fadd NaN _ = NaN"
| "fadd _ NaN = NaN"
| "fadd (Fin x) (Fin y) = Fin (x + y)"
| "fadd PosInf NegInf = NaN"
| "fadd NegInf PosInf = NaN"
| "fadd PosInf _ = PosInf"
| "fadd _ PosInf = PosInf"
| "fadd NegInf _ = NegInf"
| "fadd _ NegInf = NegInf"

definition fsub :: "pyfloat \<Rightarrow> pyfloat \<Rightarrow> pyfloat" where
  "fsub a b = fadd a (fneg b)"


text \<open>
  \<open>max(a, b)\<close> and \<open>min(a, b)\<close> keep the first argument unless the second is strictly
  greater (smaller), so a NaN in second place is dropped and one in first place is kept.
\<close>

definition py_max :: "pyfloat \<Rightarrow> pyfloat \<Rightarrow> pyfloat" where
  "py_max a b = (if fgt b a then b else a)"

definition py_min :: "pyfloat \<Rightarrow> pyfloat \<Rightarrow> pyfloat" where
  "py_min a b = (if flt b a then b else a)"

text \<open>\<open>round(x, n)\<close>: to the nearest multiple of \<open>10^-n\<close>, ties to the even one.\<close>

definition round_half_even :: "real \<Rightarrow> int" where
  "round_half_even x =
     (let f = \<lfloor>x\<rfloor>; d = x - of_int f
      in if d < 1 / 2 then f else if 1 / 2 < d then f + 1 else if even f then f else f + 1)"

definition round_places :: "nat \<Rightarrow> real \<Rightarrow> real" where
  "round_places n x = of_int (round_half_even (x * 10 ^ n)) / 10 ^ n"

fun py_round :: "pyfloat \<Rightarrow> nat \<Rightarrow> pyfloat" where
  "py_round (Fin x) n = Fin (round_places n x)"
| "py_round f n = f"

subsection \<open>Truthiness, \<open>str\<close>, \<open>float\<close>, dict access\<close>

fun truthy :: "pyval \<Rightarrow> bool" where
  "truthy PNone = False"
| "truthy (PBool b) = b"
| "truthy (PInt n) = (n \<noteq> 0)"
| "truthy (PFloat f) = (f \<noteq> Fin 0)"
| "truthy (PStr s) = (s \<noteq> [])"
| "truthy (PList xs) = (xs \<noteq> [])"
| "truthy (PTuple xs) = (xs \<noteq> [])"
| "truthy (PDict d) = (d \<noteq> [])"

definition py_or :: "pyval \<Rightarrow> pyval \<Rightarrow> pyval" where
  "py_or a b = (if truthy a then a else b)"

fun py_str :: "builtins \<Rightarrow> pyval \<Rightarrow> string" where
  "py_str B (PStr s) = s"
| "py_str B v = str_of B v"

text \<open>
  \<open>float(v)\<close>. An int converts when it rounds to a finite double, that is when its
  magnitude is below \<open>2^1024 - 2^970\<close>; a larger one raises \<open>OverflowError\<close>.
\<close>

definition float_max_int :: int where
  "float_max_int = 2 ^ 1024 - 2 ^ 970"

fun py_float :: "builtins \<Rightarrow> pyval \<Rightarrow> py_error + pyfloat" where
  "py_float B PNone = Inl TypeError"
| "py_float B (PBool b) = Inr (Fin (if b then 1 else 0))"
| "py_float B (PInt n) = (if \<bar>n\<bar> < float_max_int then Inr (Fin (of_int n)) else Inl OverflowError)"
| "py_float B (PFloat f) = Inr f"
| "py_float B (PStr s) = (case float_of_str B s of None \<Rightarrow> Inl ValueError | Some f \<Rightarrow> Inr f)"
| "py_float B (PList xs) = Inl TypeError"
| "py_float B (PTuple xs) = Inl TypeError"
| "py_float B (PDict d) = Inl TypeError"

definition dict_get :: "pydict \<Rightarrow> string \<Rightarrow> pyval" where
  "dict_get d k = (case map_of d k of None \<Rightarrow> PNone | Some v \<Rightarrow> v)"

text \<open>\<open>d.get(k, default)\<close>, \<open>d[k]\<close> and \<open>d[k] = v\<close>.\<close>

definition dict_get_default :: "pydict \<Rightarrow> string \<Rightarrow> pyval \<Rightarrow> pyval" where
  "dict_get_default d k dflt = (case map_of d k of None \<Rightarrow> dflt | Some v \<Rightarrow> v)"

definition dict_index :: "pydict \<Rightarrow> string \<Rightarrow> py_error + pyval" where
  "dict_index d k = (case map_of d k of None \<Rightarrow> Inl KeyError | Some v \<Rightarrow> Inr v)"

fun dict_set :: "pydict \<Rightarrow> string \<Rightarrow> pyval \<Rightarrow> pydict" where
  "dict_set [] k v = [(k, v)]"
| "dict_set ((k', v') # d) k v = (if k' = k then (k, v) # d else (k', v') # dict_set d k v)"

text \<open>
  Iterating a value (\<open>list(v)\<close>, tuple unpacking): a string yields its characters, a dict
  its keys, and a value that is not iterable raises \<open>TypeError\<close>.
\<close>

fun py_list :: "pyval \<Rightarrow> py_error + pyval list" where
  "py_list (PList xs) = Inr xs"
| "py_list (PTuple xs) = Inr xs"
| "py_list (PStr s) = Inr (map (\<lambda>c. PStr [c]) s)"
| "py_list (PDict d) = Inr (map (\<lambda>kv. PStr (fst kv)) d)"
| "py_list _ = Inl TypeError"

text \<open>\<open>v > r\<close> for a float constant \<open>r\<close>: numbers compare by value, anything else raises.\<close>

fun py_gt_const :: "pyval \<Rightarrow> real \<Rightarrow> py_error + bool" where
  "py_gt_const (PBool b) r = Inr (r < (if b then 1 else 0))"
| "py_gt_const (PInt n) r = Inr (r < of_int n)"
| "py_gt_const (PFloat f) r = Inr (fgt f (Fin r))"
| "py_gt_const _ r = Inl TypeError"

subsection \<open>Strings\<close>

text \<open>
  Strings are lists of ASCII characters: \<open>lower\<close> maps \<open>A-Z\<close> to \<open>a-z\<close>, \<open>split()\<close> cuts at
  runs of the ASCII whitespace characters, \<open>t in s\<close> is the substring test.
\<close>

definition lower_char :: "char \<Rightarrow> char" where
  "lower_char c =
     (let n = (of_char c :: nat) in if 65 \<le> n \<and> n \<le> 90 then char_of (n + 32) else c)"

definition lower :: "string \<Rightarrow> string" where
  "lower s = map lower_char s"

definition is_space :: "char \<Rightarrow> bool" where
  "is_space c = (let n = (of_char c :: nat) in (9 \<le> n \<and> n \<le> 13) \<or> (28 \<le> n \<and> n \<le> 32))"

fun count_words :: "bool \<Rightarrow> string \<Rightarrow> nat" where
  "count_words in_word [] = 0"
| "count_words in_word (c # cs) =
     (if is_space c then count_words False cs
      else (if in_word then 0 else 1) + count_words True cs)"

definition split_len :: "string \<Rightarrow> nat" where
  "split_len s = count_words False s"


section \<open>The sanitizer (\<open>app/services/validation.py\<close>)\<close>

text \<open>
  \<open>_as_float(value, default)\<close>: \<open>float(value)\<close>, with \<open>TypeError\<close> and \<open>ValueError\<close>
  caught and replaced by the default. Any other exception of \<open>float\<close> leaves the function.
\<close>

definition as_float :: "builtins \<Rightarrow> pyval \<Rightarrow> pyfloat \<Rightarrow> py_error + pyfloat" where
  "as_float B v dflt =
     (case py_float B v of
        Inr f \<Rightarrow> Inr f
      | Inl TypeError \<Rightarrow> Inr dflt
      | Inl ValueError \<Rightarrow> Inr dflt
      | Inl e \<Rightarrow> Inl e)"

text \<open>\<open>_round(value)\<close> with its default of 6 places; the argument is always a float.\<close>

definition round_val :: "pyfloat \<Rightarrow> pyfloat" where
  "round_val v = py_round v 6"

text \<open>Lines 31-37: the range is read from a list or tuple of length two.\<close>

fun seq2 :: "pyval \<Rightarrow> (pyval \<times> pyval) option" where
  "seq2 (PList [a, b]) = Some (a, b)"
| "seq2 (PTuple [a, b]) = Some (a, b)"
| "seq2 _ = None"

definition range_bounds :: "builtins \<Rightarrow> pyval \<Rightarrow> pyfloat \<Rightarrow> py_error + (pyfloat \<times> pyfloat)" where
  "range_bounds B raw_range implied =
     (case seq2 raw_range of
        Some (a, b) \<Rightarrow>
          (case as_float B a (fsub implied (Fin 0.5)) of
             Inl e \<Rightarrow> Inl e
           | Inr lo \<Rightarrow>
               (case as_float B b (fadd implied (Fin 0.5)) of
                  Inl e \<Rightarrow> Inl e
                | Inr hi \<Rightarrow> Inr (lo, hi)))
      | None \<Rightarrow> Inr (fsub implied (Fin 0.5), fadd implied (Fin 0.5)))"

text \<open>
  Lines 42-56: the citation filter. An entry survives when it is a dict whose
  \<open>source_id\<close> is a string starting with \<open>chunk:\<close>; a truthy \<open>name\<close> or \<open>ticker\<close> is kept
  as a string. \<open>None\<close> is the loop's \<open>continue\<close>.
\<close>

definition clean_comp :: "builtins \<Rightarrow> pyval \<Rightarrow> pyval option" where
  "clean_comp B item =
     (case item of
        PDict d \<Rightarrow>
          (case dict_get d ''source_id'' of
             PStr source_id \<Rightarrow>
               if prefix ''chunk:'' source_id then
                 Some (PDict
                   ([(''source_id'', PStr source_id)]
                    @ (if truthy (dict_get d ''name'')
                       then [(''name'', PStr (py_str B (dict_get d ''name'')))] else [])
                    @ (if truthy (dict_get d ''ticker'')
                       then [(''ticker'', PStr (py_str B (dict_get d ''ticker'')))] else [])))
               else None
           | _ \<Rightarrow> None)
      | _ \<Rightarrow> None)"

definition clean_comps :: "builtins \<Rightarrow> pyval \<Rightarrow> pyval list" where
  "clean_comps B raw_comps =
     (case raw_comps of PList items \<Rightarrow> List.map_filter (clean_comp B) items | _ \<Rightarrow> [])"

text \<open>Lines 62-70: risk flags as a list of strings; a truthy non-list becomes one flag.\<close>

definition coerce_risks :: "builtins \<Rightarrow> pyval \<Rightarrow> string list" where
  "coerce_risks B raw_risks =
     (case raw_risks of
        PList entries \<Rightarrow> map (py_str B) (filter (\<lambda>entry. entry \<noteq> PNone) entries)
      | _ \<Rightarrow> if truthy raw_risks then [py_str B raw_risks] else [])"

text \<open>\<open>list(dict.fromkeys(xs))\<close>: the first occurrence of every element, in order.\<close>

fun dedupe :: "'a list \<Rightarrow> 'a list" where
  "dedupe [] = []"
| "dedupe (x # xs) = x # dedupe (removeAll x xs)"

text \<open>Line 59: retrieval produced hits and no citation survived the filter.\<close>

definition hits_without_citations :: "bool \<Rightarrow> int \<Rightarrow> pyval list \<Rightarrow> bool" where
  "hits_without_citations retrieval_required retrieval_hits comps_used =
     (retrieval_required \<and> retrieval_hits > 0 \<and> comps_used = [])"

text \<open>
  Lines 72-93, once every field is parsed: the confidence clamp, the guardrail for an
  empty citation list, the ordering and rounding of the range, and the result dict.
\<close>

definition build_result ::
  "pyfloat \<Rightarrow> string \<Rightarrow> string \<Rightarrow> pyfloat \<Rightarrow> pyfloat \<Rightarrow> pyfloat \<Rightarrow> pyval list \<Rightarrow> string list
     \<Rightarrow> pyfloat \<Rightarrow> pydict" where
  "build_result baseline_multiple r_conclusion r_reasoning implied lo hi comps_used risks c =
     (let confidence = py_max (Fin 0) (py_min (Fin 1) c);
          (implied1, lo1, hi1, confidence1, risks1) =
             (if comps_used = [] then
                (baseline_multiple,
                 py_max (Fin 0) (fsub baseline_multiple (Fin 0.5)),
                 fadd baseline_multiple (Fin 0.5),
                 py_min confidence (Fin 0.5),
                 if ''no_citable_evidence'' \<in> set risks then risks
                 else risks @ [''no_citable_evidence''])
              else (implied, lo, hi, confidence, risks));
          (lo2, hi2) = (if fgt lo1 hi1 then (hi1, lo1) else (lo1, hi1))
      in [(''conclusion'', PStr r_conclusion),
          (''reasoning'', PStr r_reasoning),
          (''range'', PList [PFloat (round_val lo2), PFloat (round_val hi2)]),
          (''implied_multiple'', PFloat (round_val implied1)),
          (''comps_used'', PList comps_used),
          (''risk_flags'', PList (map PStr (dedupe risks1))),
          (''confidence'', PFloat confidence1)])"

definition sanitize_analysis_payload ::
  "builtins \<Rightarrow> pydict \<Rightarrow> pyfloat \<Rightarrow> bool \<Rightarrow> int \<Rightarrow> py_error + pydict" where
  "sanitize_analysis_payload B payload baseline_multiple retrieval_required retrieval_hits =
     (let conclusion = dict_get payload ''conclusion'';
          r_conclusion = (if conclusion \<noteq> PNone then py_str B conclusion else ''undetermined'')
      in case as_float B (dict_get payload ''implied_multiple'') baseline_multiple of
           Inl e \<Rightarrow> Inl e
         | Inr implied \<Rightarrow>
      (case range_bounds B (dict_get payload ''range'') implied of
           Inl e \<Rightarrow> Inl e
         | Inr (lo, hi) \<Rightarrow>
      (let r_reasoning = (case dict_get payload ''reasoning'' of PStr s \<Rightarrow> s | _ \<Rightarrow> []);
           comps_used = clean_comps B (py_or (dict_get payload ''comps_used'') (PList []))
       in if hits_without_citations retrieval_required retrieval_hits comps_used
          then Inl ValueError
          else
      (let risks = coerce_risks B (py_or (dict_get payload ''risk_flags'') (PList []))
       in case as_float B (dict_get payload ''confidence'') (Fin 0.45) of
            Inl e \<Rightarrow> Inl e
          | Inr c \<Rightarrow>
              Inr (build_result baseline_multiple r_conclusion r_reasoning implied lo hi
                     comps_used risks c)))))"


section \<open>The evidence rule and the recovery (\<open>enforce.py\<close>, \<open>analyzer.py\<close>)\<close>

text \<open>An \<open>AnalysisV1\<close> object is the dict it was validated from.\<close>

definition analysis_comps :: "pydict \<Rightarrow> pyval list" where
  "analysis_comps analysis = (case dict_get analysis ''comps_used'' of PList cs \<Rightarrow> cs | _ \<Rightarrow> [])"

definition enforce_evidence_rule :: "pydict \<Rightarrow> int \<Rightarrow> py_error + pydict" where
  "enforce_evidence_rule analysis retrieval_hits =
     (if retrieval_hits > 0 \<and> length (analysis_comps analysis) = 0 then Inl ValueError
      else Inr analysis)"

text \<open>\<open>_should_require_retrieval\<close> and its own list of terms.\<close>

definition RETRIEVAL_HARD_TERMS :: "string list" where
  "RETRIEVAL_HARD_TERMS =
     [''comp'', ''compare'', ''fx'', ''eur'', ''portfolio'', ''multi-year'', ''multi year'',
      ''2025'', ''2026'', ''2027'', ''scenario'', ''sensitivity'']"

definition should_require_retrieval :: "string option \<Rightarrow> bool" where
  "should_require_retrieval question =
     (case question of
        None \<Rightarrow> False
      | Some q \<Rightarrow>
          if q = [] then False
          else list_ex (\<lambda>term. sublist term (lower q)) RETRIEVAL_HARD_TERMS)"

text \<open>
  Lines 56-65 of \<open>analyze_core\<close>: the flag and the hit count handed to the sanitizer,
  from the question and the retrieved chunks.
\<close>

definition core_retrieval_hits :: "pydict list \<Rightarrow> int" where
  "core_retrieval_hits comps = int (length comps)"

definition core_retrieval_required :: "string option \<Rightarrow> pydict list \<Rightarrow> bool" where
  "core_retrieval_required question comps =
     (should_require_retrieval question \<or> core_retrieval_hits comps \<noteq> 0)"

text \<open>
  \<open>_fallback_citations\<close>. A \<open>CompCitation\<close> is written as the dict its \<open>model_dump()\<close>
  gives. The name is \<open>comp.get("source") or comp.get("meta", {}).get("section")\<close>, which
  raises \<open>AttributeError\<close> when \<open>meta\<close> is present and not a dict.
\<close>

definition source_name_of :: "pydict \<Rightarrow> py_error + pyval" where
  "source_name_of chunk =
     (if truthy (dict_get chunk ''source'') then Inr (dict_get chunk ''source'')
      else (case map_of chunk ''meta'' of
              None \<Rightarrow> Inr PNone
            | Some (PDict m) \<Rightarrow> Inr (dict_get m ''section'')
            | Some _ \<Rightarrow> Inl AttributeError))"

fun fallback_loop :: "builtins \<Rightarrow> pydict list \<Rightarrow> nat \<Rightarrow> pyval list \<Rightarrow> py_error + pyval list" where
  "fallback_loop B [] limit citations = Inr citations"
| "fallback_loop B (chunk # comps) limit citations =
     (let chunk_id = py_or (dict_get chunk ''chunk_id'') (dict_get chunk ''id'')
      in if \<not> truthy chunk_id then fallback_loop B comps limit citations
         else (case source_name_of chunk of
                 Inl e \<Rightarrow> Inl e
               | Inr source_name \<Rightarrow>
                   (let citation =
                          PDict [(''source_id'', PStr (''chunk:'' @ py_str B chunk_id)),
                                 (''name'', if truthy source_name then source_name else PNone),
                                 (''ticker'', PNone)];
                        citations1 = citations @ [citation]
                    in if length citations1 \<ge> limit then Inr citations1
                       else fallback_loop B comps limit citations1)))"

definition fallback_citations :: "builtins \<Rightarrow> pydict list \<Rightarrow> py_error + pyval list" where
  "fallback_citations B comps = fallback_loop B comps 3 []"

text \<open>
  Lines 75-99 of \<open>analyze_core\<close>: sanitize; on \<open>ValueError\<close> inject the fallback citations,
  the risk flag and the confidence cap into the raw output and sanitize once more.
\<close>

definition confidence_needs_cap :: "pydict \<Rightarrow> py_error + bool" where
  "confidence_needs_cap raw_output =
     (if dict_get raw_output ''confidence'' = PNone then Inr True
      else py_gt_const (dict_get_default raw_output ''confidence'' (PFloat (Fin 0))) 0.6)"

definition inject_fallback :: "pydict \<Rightarrow> pyval list \<Rightarrow> py_error + pydict" where
  "inject_fallback raw_output fallback =
     (let raw1 = dict_set raw_output ''comps_used'' (PList fallback)
      in case py_list (py_or (dict_get raw1 ''risk_flags'') (PList [])) of
           Inl e \<Rightarrow> Inl e
         | Inr risk_flags \<Rightarrow>
             (let risk_flags1 =
                    (if PStr ''fallback_citations_injected'' \<in> set risk_flags then risk_flags
                     else risk_flags @ [PStr ''fallback_citations_injected'']);
                  raw2 = dict_set raw1 ''risk_flags'' (PList risk_flags1)
              in case confidence_needs_cap raw2 of
                   Inl e \<Rightarrow> Inl e
                 | Inr cap \<Rightarrow>
                     Inr (if cap then dict_set raw2 ''confidence'' (PFloat (Fin 0.55)) else raw2)))"

definition sanitize_with_fallback ::
  "builtins \<Rightarrow> pydict \<Rightarrow> pydict list \<Rightarrow> pyfloat \<Rightarrow> bool \<Rightarrow> int \<Rightarrow> py_error + pydict" where
  "sanitize_with_fallback B raw_output comps baseline_multiple retrieval_required retrieval_hits =
     (case sanitize_analysis_payload B raw_output baseline_multiple retrieval_required
             retrieval_hits of
        Inr sanitized \<Rightarrow> Inr sanitized
      | Inl ValueError \<Rightarrow>
          (case fallback_citations B comps of
             Inl e \<Rightarrow> Inl e
           | Inr fallback \<Rightarrow>
               if fallback = [] then Inl ValueError
               else (case inject_fallback raw_output fallback of
                       Inl e \<Rightarrow> Inl e
                     | Inr raw2 \<Rightarrow>
                         sanitize_analysis_payload B raw2 baseline_multiple retrieval_required
                           retrieval_hits))
      | Inl e \<Rightarrow> Inl e)"

section \<open>The consultant (\<open>app/services/consultant.py\<close>)\<close>

text \<open>
  \<open>_heuristic_baseline\<close>. \<open>comp_names\<close> is the comprehension
  \<open>[c.get("name") for c in comps if c.get("name")]\<close>, \<open>verdict_of\<close> the conditional
  expression of line 146.
\<close>

definition comp_names :: "pydict list \<Rightarrow> pyval list" where
  "comp_names comps =
     map (\<lambda>c. dict_get c ''name'') (filter (\<lambda>c. truthy (dict_get c ''name'')) comps)"



text \<open>\<open>_classify_request\<close> and its lexicon; the argument \<open>comps\<close> is not read.\<close>

definition hard_terms :: "string list" where
  "hard_terms =
     [''compare'', ''versus'', ''vs'', ''portfolio'', ''multi'', ''scenario'', ''sensitivity'',
      ''synergy'', ''dilution'', ''dcf'', ''discounted cash'', ''merger'', ''leveraged'', ''fx'',
      ''currency'', ''hedge'', ''tax'', ''rag'', ''retrieval'']"

definition classify_request ::
  "string option \<Rightarrow> pydict \<Rightarrow> pydict list \<Rightarrow> string" where
  "classify_request question deal comps =
     (let text = lower (case question of None \<Rightarrow> [] | Some q \<Rightarrow> q)
      in if list_ex (\<lambda>term. sublist term text) hard_terms then ''hard''
         else if \<not> truthy (dict_get deal ''price'') \<or> \<not> truthy (dict_get deal ''ebitda'')
                 \<or> \<not> truthy (dict_get deal ''industry'') then ''hard''
         else if count_list text (CHR ''?'') > 1 \<or> split_len text > 40 then ''hard''
         else ''easy'')"

text \<open>
  \<open>_coerce_response\<close>. \<open>float_or_seed\<close> is the pattern of lines 390-393 and 404-407:
  \<open>float(parsed.get(k, seed[k]))\<close>, the seed's own value on \<open>TypeError\<close> or \<open>ValueError\<close>.
\<close>

definition float_or_seed :: "builtins \<Rightarrow> pydict \<Rightarrow> pydict \<Rightarrow> string \<Rightarrow> py_error + pyval" where
  "float_or_seed B parsed baseline k =
     (case dict_index baseline k of
        Inl e \<Rightarrow> Inl e
      | Inr seed_value \<Rightarrow>
          (case py_float B (dict_get_default parsed k seed_value) of
             Inr f \<Rightarrow> Inr (PFloat f)
           | Inl TypeError \<Rightarrow> dict_index baseline k
           | Inl ValueError \<Rightarrow> dict_index baseline k
           | Inl e \<Rightarrow> Inl e))"

definition unpack_range :: "builtins \<Rightarrow> pyval \<Rightarrow> py_error + pyval" where
  "unpack_range B range_raw =
     (case py_list range_raw of
        Inl e \<Rightarrow> Inl e
      | Inr [lo, hi] \<Rightarrow>
          (case py_float B lo of
             Inl e \<Rightarrow> Inl e
           | Inr lo_f \<Rightarrow>
               (case py_float B hi of
                  Inl e \<Rightarrow> Inl e
                | Inr hi_f \<Rightarrow> Inr (PTuple [PFloat lo_f, PFloat hi_f])))
      | Inr _ \<Rightarrow> Inl ValueError)"

definition computed_range :: "builtins \<Rightarrow> pydict \<Rightarrow> pydict \<Rightarrow> py_error + pyval" where
  "computed_range B parsed baseline =
     (case dict_index baseline ''range'' of
        Inl e \<Rightarrow> Inl e
      | Inr seed_range \<Rightarrow>
          (case unpack_range B (dict_get_default parsed ''range'' seed_range) of
             Inr r \<Rightarrow> Inr r
           | Inl TypeError \<Rightarrow> dict_index baseline ''range''
           | Inl ValueError \<Rightarrow> dict_index baseline ''range''
           | Inl e \<Rightarrow> Inl e))"

definition coerce_parsed :: "builtins \<Rightarrow> pyval \<Rightarrow> pydict \<Rightarrow> pydict list \<Rightarrow> py_error + pydict" where
  "coerce_parsed B parsed_value baseline comps =
     (case parsed_value of
        PDict parsed \<Rightarrow>
          (case float_or_seed B parsed baseline ''implied_multiple'' of
             Inl e \<Rightarrow> Inl e
           | Inr implied \<Rightarrow>
          (case computed_range B parsed baseline of
             Inl e \<Rightarrow> Inl e
           | Inr rng \<Rightarrow>
          (case float_or_seed B parsed baseline ''confidence'' of
             Inl e \<Rightarrow> Inl e
           | Inr confidence \<Rightarrow>
          (case dict_index baseline ''conclusion'' of
             Inl e \<Rightarrow> Inl e
           | Inr seed_conclusion \<Rightarrow>
          (case dict_index baseline ''reasoning'' of
             Inl e \<Rightarrow> Inl e
           | Inr seed_reasoning \<Rightarrow>
          (case dict_index baseline ''risk_flags'' of
             Inl e \<Rightarrow> Inl e
           | Inr seed_risk_flags \<Rightarrow>
               Inr [(''conclusion'', dict_get_default parsed ''conclusion'' seed_conclusion),
                    (''implied_multiple'', implied),
                    (''range'', rng),
                    (''reasoning'', dict_get_default parsed ''reasoning'' seed_reasoning),
                    (''comps_used'',
                       dict_get_default parsed ''comps_used'' (PList (comp_names comps))),
                    (''risk_flags'', dict_get_default parsed ''risk_flags'' seed_risk_flags),
                    (''confidence'', confidence)]))))))
      | _ \<Rightarrow> Inl AttributeError)"

definition coerce_response :: "builtins \<Rightarrow> string \<Rightarrow> pydict \<Rightarrow> pydict list \<Rightarrow> py_error + pydict" where
  "coerce_response B raw baseline comps =
     (case json_loads B raw of
        None \<Rightarrow> Inr baseline
      | Some parsed_value \<Rightarrow> coerce_parsed B parsed_value baseline comps)"


section \<open>Vocabulary of the statements\<close>

text \<open>
  \<open>converts B v\<close>: \<open>float(v)\<close> does not overflow. \<open>numeric_fields_convert\<close> says so of the
  three numeric fields the sanitizer reads. \<open>result_flags\<close> reads the risk flags of a
  result.
\<close>

definition converts :: "builtins \<Rightarrow> pyval \<Rightarrow> bool" where
  "converts B v = (py_float B v \<noteq> Inl OverflowError)"

definition numeric_fields_convert :: "builtins \<Rightarrow> pydict \<Rightarrow> bool" where
  "numeric_fields_convert B payload =
     (converts B (dict_get payload ''implied_multiple'')
      \<and> (case seq2 (dict_get payload ''range'') of
            Some (a, b) \<Rightarrow> converts B a \<and> converts B b
          | None \<Rightarrow> True)
      \<and> converts B (dict_get payload ''confidence''))"

definition result_flags :: "pydict \<Rightarrow> pyval list" where
  "result_flags r = (case dict_get r ''risk_flags'' of PList fs \<Rightarrow> fs | _ \<Rightarrow> [])"

definition payload_conclusion :: "builtins \<Rightarrow> pydict \<Rightarrow> string" where
  "payload_conclusion B payload =
     (if dict_get payload ''conclusion'' \<noteq> PNone then py_str B (dict_get payload ''conclusion'')
      else ''undetermined'')"

definition payload_reasoning :: "pydict \<Rightarrow> string" where
  "payload_reasoning payload = (case dict_get payload ''reasoning'' of PStr s \<Rightarrow> s | _ \<Rightarrow> [])"

definition payload_comps :: "builtins \<Rightarrow> pydict \<Rightarrow> pyval list" where
  "payload_comps B payload = clean_comps B (py_or (dict_get payload ''comps_used'') (PList []))"

definition payload_risks :: "builtins \<Rightarrow> pydict \<Rightarrow> string list" where
  "payload_risks B payload = coerce_risks B (py_or (dict_get payload ''risk_flags'') (PList []))"

text \<open>
  \<open>usable_chunk\<close>: a retrieved chunk from which \<open>_fallback_citations\<close> can build a
  citation, that is one with a truthy \<open>chunk_id\<close> or \<open>id\<close>.
\<close>

definition usable_chunk :: "pydict \<Rightarrow> bool" where
  "usable_chunk chunk = truthy (py_or (dict_get chunk ''chunk_id'') (dict_get chunk ''id''))"

text \<open>\<open>is_citation\<close>: the dict of a \<open>CompCitation\<close> as \<open>_fallback_citations\<close> builds it.\<close>

definition is_citation :: "pyval \<Rightarrow> bool" where
  "is_citation v =
     (\<exists>sid n. v = PDict [(''source_id'', PStr (''chunk:'' @ sid)), (''name'', n),
                         (''ticker'', PNone)])"

section \<open>Concrete inputs\<close>


text \<open>
  Scenario C of the specification (two valid citations, confidence 0.7) and the result
  the sanitizer gives on it.
\<close>

definition scenario_c :: pydict where
  "scenario_c =
     [(''conclusion'', PStr ''fair''),
      (''implied_multiple'', PFloat (Fin 6.4)),
      (''range'', PList [PFloat (Fin 5.8), PFloat (Fin 6.9)]),
      (''reasoning'', PStr ''Backed by comps''),
      (''comps_used'',
         PList [PDict [(''source_id'', PStr ''chunk:abc''), (''name'', PStr ''Comp A'')],
                PDict [(''source_id'', PStr ''chunk:def''), (''ticker'', PStr ''CMPB'')]]),
      (''risk_flags'', PList [PStr ''fx-risk'']),
      (''confidence'', PFloat (Fin 0.7))]"

definition result_c :: pydict where
  "result_c =
     [(''conclusion'', PStr ''fair''),
      (''reasoning'', PStr ''Backed by comps''),
      (''range'', PList [PFloat (Fin 5.8), PFloat (Fin 6.9)]),
      (''implied_multiple'', PFloat (Fin 6.4)),
      (''comps_used'',
         PList [PDict [(''source_id'', PStr ''chunk:abc''), (''name'', PStr ''Comp A'')],
                PDict [(''source_id'', PStr ''chunk:def''), (''ticker'', PStr ''CMPB'')]]),
      (''risk_flags'', PList [PStr ''fx-risk'']),
      (''confidence'', PFloat (Fin 0.7))]"

text \<open>A payload that carries the guardrail flag itself, next to a valid citation.\<close>

definition flagged_payload :: pydict where
  "flagged_payload =
     [(''comps_used'', PList [PDict [(''source_id'', PStr ''chunk:a'')]]),
      (''risk_flags'', PList [PStr ''no_citable_evidence''])]"

text \<open>A stand-in for the library functions, with a \<open>str\<close> that never returns the empty string.\<close>

definition stub_builtins :: builtins where
  "stub_builtins =
     \<lparr>float_of_str = (\<lambda>s. None), str_of = (\<lambda>v. ''<object>''), json_loads = (\<lambda>s. None)\<rparr>"

text \<open>
  A raw output without citations and with confidence 0.58, and one retrieved chunk: the
  input of the recovery in \<open>analyze_core\<close>.
\<close>

definition uncited_output :: pydict where
  "uncited_output =
     [(''conclusion'', PStr ''fair''),
      (''comps_used'', PList [PStr ''Acme Corp'']),
      (''confidence'', PFloat (Fin 0.58))]"

definition one_chunk :: "pydict list" where
  "one_chunk = [[(''chunk_id'', PStr ''c1''), (''source'', PStr ''10-K'')]]"

text \<open>The same raw output with confidence 0.9, and the citation built from the chunk.\<close>

definition overconfident_output :: pydict where
  "overconfident_output =
     [(''conclusion'', PStr ''fair''),
      (''comps_used'', PList [PStr ''Acme Corp'']),
      (''confidence'', PFloat (Fin 0.9))]"

definition chunk_citation :: pyval where
  "chunk_citation =
     PDict [(''source_id'', PStr ''chunk:c1''), (''name'', PStr ''10-K''), (''ticker'', PNone)]"



definition fair_deal :: pydict where
  "fair_deal = [(''price'', PFloat (Fin 90)), (''ebitda'', PFloat (Fin 10)), (''industry'', PStr ''software'')]"

text \<open>A deal without price, ebitda and industry (Scenario D).\<close>

definition bare_deal :: pydict where
  "bare_deal = [(''id'', PInt 7), (''name'', PStr ''Acme'')]"

text \<open>
  A seed that is a triage payload, not the baseline, and two stand-ins for the library in
  which \<open>json.loads\<close> decodes the response text to \<open>{"risk_flags": 5}\<close>, and to an object
  with an unparsable multiple, a three-element range and a confidence of 0.8.
\<close>

definition triage_seed :: pydict where
  "triage_seed =
     [(''conclusion'', PStr ''fair''),
      (''implied_multiple'', PFloat (Fin 9)),
      (''range'', PTuple [PFloat (Fin 8), PFloat (Fin 10)]),
      (''reasoning'', PStr ''first pass''),
      (''comps_used'', PList [PStr ''Seed Co'']),
      (''risk_flags'', PList []),
      (''confidence'', PFloat (Fin 0.5))]"

definition flags_reply :: builtins where
  "flags_reply =
     \<lparr>float_of_str = (\<lambda>s. None), str_of = (\<lambda>v. ''<object>''),
      json_loads = (\<lambda>s. Some (PDict [(''risk_flags'', PInt 5)]))\<rparr>"

definition partial_reply :: builtins where
  "partial_reply =
     \<lparr>float_of_str = (\<lambda>s. None), str_of = (\<lambda>v. ''<object>''),
      json_loads = (\<lambda>s. Some (PDict [(''implied_multiple'', PStr ''n/a''),
                                       (''range'', PList [PInt 7, PInt 9, PInt 11]),
                                       (''confidence'', PFloat (Fin 0.8))]))\<rparr>"

section \<open>Rounding, float order and de-duplication\<close>

lemma round_half_even_of_int: "round_half_even (of_int k) = k"
  by (simp add: round_half_even_def)

lemma round_places_idem: "round_places n (round_places n x) = round_places n x"
  by (simp add: round_places_def round_half_even_of_int)

lemma round_half_even_bounds: "\<lfloor>x\<rfloor> \<le> round_half_even x \<and> round_half_even x \<le> \<lfloor>x\<rfloor> + 1"
  by (simp add: round_half_even_def Let_def)

lemma round_half_even_mono:
  assumes "x \<le> y"
  shows "round_half_even x \<le> round_half_even y"
proof (cases "\<lfloor>x\<rfloor> = \<lfloor>y\<rfloor>")
  case True
  then show ?thesis
    using assms by (auto simp: round_half_even_def Let_def)
next
  case False
  have "\<lfloor>x\<rfloor> \<le> \<lfloor>y\<rfloor>"
    using assms by (rule floor_mono)
  with False have "\<lfloor>x\<rfloor> + 1 \<le> \<lfloor>y\<rfloor>"
    by simp
  then show ?thesis
    using round_half_even_bounds[of x] round_half_even_bounds[of y] by linarith
qed

lemma round_places_mono: "x \<le> y \<Longrightarrow> round_places n x \<le> round_places n y"
  by (simp add: round_places_def divide_right_mono round_half_even_mono)

lemma round_val_not_fgt: "\<not> fgt a b \<Longrightarrow> \<not> fgt (round_val a) (round_val b)"
  by (cases a; cases b) (auto simp: fgt_def round_val_def not_less round_places_mono)

lemma round_val_idem: "round_val (round_val a) = round_val a"
  by (cases a) (auto simp: round_val_def round_places_idem)

lemma set_dedupe: "set (dedupe xs) = set xs"
  by (induction xs rule: dedupe.induct) auto

lemma distinct_dedupe: "distinct (dedupe xs)"
  by (induction xs rule: dedupe.induct) (auto simp: set_dedupe)

lemma dedupe_distinct: "distinct xs \<Longrightarrow> dedupe xs = xs"
  by (induction xs) auto

lemma dedupe_idem: "dedupe (dedupe xs) = dedupe xs"
  by (simp add: dedupe_distinct distinct_dedupe)

lemma clamp_idem:
  "py_max (Fin 0) (py_min (Fin 1) (py_max (Fin 0) (py_min (Fin 1) c))) =
     py_max (Fin 0) (py_min (Fin 1) c)"
  by (cases c) (auto simp: py_max_def py_min_def fgt_def)

section \<open>The structure of a sanitizer run\<close>

lemma py_float_errors:
  "py_float B v = Inl e \<Longrightarrow> e = TypeError \<or> e = ValueError \<or> e = OverflowError"
  by (cases v) (auto split: if_splits option.splits)

lemma as_float_converts:
  assumes "converts B v"
  obtains f where "as_float B v d = Inr f"
proof (cases "py_float B v")
  case (Inl e)
  with assms py_float_errors[OF Inl] show ?thesis
    using that by (auto simp: as_float_def converts_def)
next
  case (Inr f)
  then show ?thesis using that by (simp add: as_float_def)
qed

lemma range_bounds_converts:
  assumes "case seq2 raw of Some (a, b) \<Rightarrow> converts B a \<and> converts B b | None \<Rightarrow> True"
  obtains lo hi where "range_bounds B raw implied = Inr (lo, hi)"
proof (cases "seq2 raw")
  case None
  then show ?thesis using that by (simp add: range_bounds_def)
next
  case (Some ab)
  obtain a b where ab: "ab = (a, b)" by (cases ab)
  with Some assms have ca: "converts B a" and cb: "converts B b" by auto
  obtain lo where lo: "as_float B a (fsub implied (Fin 0.5)) = Inr lo"
    using as_float_converts[OF ca] by blast
  obtain hi where hi: "as_float B b (fadd implied (Fin 0.5)) = Inr hi"
    using as_float_converts[OF cb] by blast
  show ?thesis
    using that[of lo hi] Some ab lo hi by (simp add: range_bounds_def)
qed

lemma sanitize_Inr_build:
  assumes "sanitize_analysis_payload B payload b rr hits = Inr r"
  obtains implied lo hi c where
    "r = build_result b (payload_conclusion B payload) (payload_reasoning payload) implied lo hi
           (payload_comps B payload) (payload_risks B payload) c"
    "\<not> hits_without_citations rr hits (payload_comps B payload)"
  using assms
  by (auto simp: sanitize_analysis_payload_def Let_def payload_comps_def payload_risks_def
      payload_conclusion_def payload_reasoning_def
      split: sum.splits prod.splits if_splits)

lemma sanitize_total:
  assumes "numeric_fields_convert B payload"
  obtains implied lo hi c where
    "sanitize_analysis_payload B payload b rr hits =
       (if hits_without_citations rr hits (payload_comps B payload) then Inl ValueError
        else Inr (build_result b (payload_conclusion B payload) (payload_reasoning payload)
                    implied lo hi (payload_comps B payload) (payload_risks B payload) c))"
proof -
  from assms have c1: "converts B (dict_get payload ''implied_multiple'')"
    and c2: "case seq2 (dict_get payload ''range'') of Some (a, b) \<Rightarrow> converts B a \<and> converts B b | None \<Rightarrow> True"
    and c3: "converts B (dict_get payload ''confidence'')"
    by (auto simp: numeric_fields_convert_def)
  obtain implied where i: "as_float B (dict_get payload ''implied_multiple'') b = Inr implied"
    using as_float_converts[OF c1] by blast
  obtain lo hi where r: "range_bounds B (dict_get payload ''range'') implied = Inr (lo, hi)"
    using range_bounds_converts[OF c2] by blast
  obtain c where c: "as_float B (dict_get payload ''confidence'') (Fin 0.45) = Inr c"
    using as_float_converts[OF c3] by blast
  show ?thesis
    using i r c
    by (intro that[of implied lo hi c])
      (simp add: sanitize_analysis_payload_def Let_def payload_comps_def payload_risks_def
        payload_conclusion_def payload_reasoning_def)
qed







lemma dict_get_simps:
  "dict_get [] k = PNone"
  "dict_get ((k', v) # d) k = (if k' = k then v else dict_get d k)"
  by (simp_all add: dict_get_def)


lemma count_list_distinct: "distinct xs \<Longrightarrow> count_list xs x = (if x \<in> set xs then 1 else 0)"
  by (induction xs) auto

lemma count_list_map_PStr: "count_list (map PStr xs) (PStr x) = count_list xs x"
  by (induction xs) auto

lemma count_dedupe: "count_list (map PStr (dedupe xs)) (PStr x) = (if x \<in> set xs then 1 else 0)"
  by (simp add: count_list_map_PStr count_list_distinct distinct_dedupe set_dedupe)

lemma build_result_flags:
  "result_flags (build_result b concl reas implied lo hi comps risks c) =
     map PStr (dedupe (if comps = [] then
        (if ''no_citable_evidence'' \<in> set risks then risks else risks @ [''no_citable_evidence''])
        else risks))"
  by (simp add: build_result_def Let_def result_flags_def dict_get_simps split: prod.splits)

lemma build_result_comps:
  "analysis_comps (build_result b concl reas implied lo hi comps risks c) = comps"
  by (simp add: build_result_def Let_def analysis_comps_def dict_get_simps split: prod.splits)

lemma clamp_cap_idem:
  "py_min (py_max (Fin 0) (py_min (Fin 1) (py_min (py_max (Fin 0) (py_min (Fin 1) c)) (Fin (1 / 2)))))
      (Fin (1 / 2)) = py_min (py_max (Fin 0) (py_min (Fin 1) c)) (Fin (1 / 2))"
  by (cases c) (auto simp: py_max_def py_min_def fgt_def)

lemma swap_round_not_fgt:
  "\<not> fgt (round_val (if fgt lo hi then hi else lo)) (round_val (if fgt lo hi then lo else hi))"
  by (cases lo; cases hi) (auto simp: fgt_def round_val_def not_less round_places_mono)

lemma build_result_nonempty:
  "comps \<noteq> [] \<Longrightarrow>
   build_result b concl reas implied lo hi comps risks c =
     [(''conclusion'', PStr concl), (''reasoning'', PStr reas),
      (''range'', PList [PFloat (round_val (if fgt lo hi then hi else lo)),
                         PFloat (round_val (if fgt lo hi then lo else hi))]),
      (''implied_multiple'', PFloat (round_val implied)),
      (''comps_used'', PList comps),
      (''risk_flags'', PList (map PStr (dedupe risks))),
      (''confidence'', PFloat (py_max (Fin 0) (py_min (Fin 1) c)))]"
  by (simp add: build_result_def Let_def)

lemma build_result_nil:
  "build_result b concl reas implied lo hi [] risks c =
     [(''conclusion'', PStr concl), (''reasoning'', PStr reas),
      (''range'',
         PList [PFloat (round_val (if fgt (py_max (Fin 0) (fsub b (Fin (1 / 2)))) (fadd b (Fin (1 / 2)))
                                   then fadd b (Fin (1 / 2))
                                   else py_max (Fin 0) (fsub b (Fin (1 / 2))))),
                PFloat (round_val (if fgt (py_max (Fin 0) (fsub b (Fin (1 / 2)))) (fadd b (Fin (1 / 2)))
                                   then py_max (Fin 0) (fsub b (Fin (1 / 2)))
                                   else fadd b (Fin (1 / 2))))]),
      (''implied_multiple'', PFloat (round_val b)),
      (''comps_used'', PList []),
      (''risk_flags'',
         PList (map PStr (dedupe (if ''no_citable_evidence'' \<in> set risks then risks
                                   else risks @ [''no_citable_evidence''])))),
      (''confidence'', PFloat (py_min (py_max (Fin 0) (py_min (Fin 1) c)) (Fin (1 / 2))))]"
  by (simp add: build_result_def Let_def)

lemma build_result_idem_nonempty:
  assumes "comps \<noteq> []"
  shows "build_result b concl reas (round_val implied)
           (round_val (if fgt lo hi then hi else lo)) (round_val (if fgt lo hi then lo else hi))
           comps (dedupe risks) (py_max (Fin 0) (py_min (Fin 1) c))
         = build_result b concl reas implied lo hi comps risks c"
  using swap_round_not_fgt[of lo hi]
  by (simp add: build_result_nonempty[OF assms] round_val_idem dedupe_idem clamp_idem)

lemma build_result_idem_nil:
  "build_result b concl reas implied' lo' hi' []
      (dedupe (if ''no_citable_evidence'' \<in> set risks then risks else risks @ [''no_citable_evidence'']))
      (py_min (py_max (Fin 0) (py_min (Fin 1) c)) (Fin (1 / 2)))
   = build_result b concl reas implied lo hi [] risks c"
  by (simp add: build_result_nil set_dedupe dedupe_idem clamp_cap_idem)

lemma py_str_nonempty: "\<forall>v. str_of B v \<noteq> [] \<Longrightarrow> truthy v \<Longrightarrow> py_str B v \<noteq> []"
  by (cases v) auto

lemma clean_comp_idem:
  assumes ne: "\<forall>v. str_of B v \<noteq> []" and c: "clean_comp B item = Some y"
  shows "clean_comp B y = Some y"
proof -
  from c obtain d sid where item: "item = PDict d"
    and sid: "dict_get d ''source_id'' = PStr sid" and pre: "prefix ''chunk:'' sid"
    and y: "y = PDict ([(''source_id'', PStr sid)]
                    @ (if truthy (dict_get d ''name'')
                       then [(''name'', PStr (py_str B (dict_get d ''name'')))] else [])
                    @ (if truthy (dict_get d ''ticker'')
                       then [(''ticker'', PStr (py_str B (dict_get d ''ticker'')))] else []))"
    by (auto simp: clean_comp_def split: pyval.splits if_splits)
  show ?thesis
    unfolding y using sid pre py_str_nonempty[OF ne]
    by (simp add: clean_comp_def dict_get_simps)
qed

lemma map_filter_idem:
  assumes "\<And>x y. f x = Some y \<Longrightarrow> f y = Some y"
  shows "List.map_filter f (List.map_filter f xs) = List.map_filter f xs"
  by (induction xs) (auto simp: List.map_filter_simps assms split: option.splits)

lemma clean_comps_idem:
  assumes "\<forall>v. str_of B v \<noteq> []"
  shows "clean_comps B (PList (clean_comps B raw)) = clean_comps B raw"
  by (cases raw) (simp_all add: clean_comps_def map_filter_idem clean_comp_idem[OF assms]
      List.map_filter_simps)

lemma coerce_risks_strings: "coerce_risks B (py_or (PList (map PStr ds)) (PList [])) = ds"
proof -
  have "py_or (PList (map PStr ds)) (PList []) = PList (map PStr ds)"
    by (simp add: py_or_def)
  moreover have "filter (\<lambda>entry. entry \<noteq> PNone) (map PStr ds) = map PStr ds"
    by (induction ds) auto
  moreover have "map (py_str B) (map PStr ds) = ds"
    by (induction ds) auto
  ultimately show ?thesis
    by (simp add: coerce_risks_def)
qed

lemma sanitize_of_result:
  assumes "clean_comps B (PList comps) = comps"
    and "\<not> hits_without_citations rr hits comps"
  shows "sanitize_analysis_payload B
           [(''conclusion'', PStr concl), (''reasoning'', PStr reas),
            (''range'', PList [PFloat L, PFloat H]),
            (''implied_multiple'', PFloat I),
            (''comps_used'', PList comps),
            (''risk_flags'', PList (map PStr ds)),
            (''confidence'', PFloat C)] b rr hits
         = Inr (build_result b concl reas I L H comps ds C)"
proof -
  have p: "py_or (PList comps) (PList []) = PList comps"
    by (simp add: py_or_def)
  show ?thesis
    using assms
    by (simp add: sanitize_analysis_payload_def Let_def dict_get_simps as_float_def
        range_bounds_def p coerce_risks_strings)
qed

section \<open>Fallback citations and dict updates\<close>

lemma dict_get_dict_set: "dict_get (dict_set d k v) k' = (if k' = k then v else dict_get d k')"
  by (induction d) (auto simp: dict_get_simps)

lemma clean_comp_citation: "is_citation v \<Longrightarrow> clean_comp B v \<noteq> None"
  by (auto simp: is_citation_def clean_comp_def dict_get_simps)

lemma fallback_loop_props:
  assumes "fallback_loop B comps limit acc = Inr cs"
    and "length acc < limit" and "list_all is_citation acc"
  shows "length cs \<le> limit \<and> list_all is_citation cs
       \<and> (cs = [] \<longleftrightarrow> acc = [] \<and> \<not> list_ex usable_chunk comps)"
  using assms
proof (induction comps arbitrary: acc)
  case Nil
  then show ?case by simp
next
  case (Cons chunk comps)
  show ?case
  proof (cases "usable_chunk chunk")
    case False
    then have "fallback_loop B comps limit acc = Inr cs"
      using Cons.prems(1) by (simp add: usable_chunk_def Let_def)
    from Cons.IH[OF this Cons.prems(2,3)] False show ?thesis by simp
  next
    case True
    then obtain source_name where sn: "source_name_of chunk = Inr source_name"
      using Cons.prems(1) by (cases "source_name_of chunk") (auto simp: usable_chunk_def Let_def)
    let ?cit = "PDict [(''source_id'', PStr (''chunk:'' @ py_str B (py_or (dict_get chunk ''chunk_id'') (dict_get chunk ''id'')))),
                       (''name'', if truthy source_name then source_name else PNone),
                       (''ticker'', PNone)]"
    have ic: "is_citation ?cit" by (auto simp: is_citation_def)
    show ?thesis
    proof (cases "length (acc @ [?cit]) \<ge> limit")
      case full: True
      then have "cs = acc @ [?cit]"
        using Cons.prems(1) True sn by (simp add: usable_chunk_def Let_def)
      then show ?thesis using Cons.prems(2,3) ic True by auto
    next
      case notfull: False
      then have "fallback_loop B comps limit (acc @ [?cit]) = Inr cs"
        using Cons.prems(1) True sn by (simp add: usable_chunk_def Let_def)
      from Cons.IH[OF this] notfull Cons.prems(3) ic True show ?thesis by auto
    qed
  qed
qed

lemma fallback_loop_none_usable:
  "\<not> list_ex usable_chunk comps \<Longrightarrow> fallback_loop B comps limit acc = Inr acc"
  by (induction comps) (auto simp: usable_chunk_def Let_def)

lemma map_filter_all_Some:
  "list_all (\<lambda>x. f x \<noteq> None) xs \<Longrightarrow> length (List.map_filter f xs) = length xs"
  by (induction xs) (auto simp: List.map_filter_simps split: option.splits)

lemma clean_citations_length:
  assumes "list_all is_citation cs"
  shows "length (clean_comps B (PList cs)) = length cs"
proof -
  have h: "list_all (\<lambda>x. clean_comp B x \<noteq> None) cs"
    using assms clean_comp_citation[of _ B] unfolding list_all_iff by blast
  show ?thesis
    unfolding clean_comps_def pyval.case by (rule map_filter_all_Some[OF h])
qed

lemma map_of_dict_set: "map_of (dict_set d k v) k' = (if k' = k then Some v else map_of d k')"
  by (induction d) auto

lemma dict_get_default_dict_set:
  "dict_get_default (dict_set d k v) k' dflt = (if k' = k then v else dict_get_default d k' dflt)"
  by (simp add: dict_get_default_def map_of_dict_set)

lemma as_float_error: "as_float B v d = Inl e \<Longrightarrow> e = OverflowError"
  using py_float_errors[of B v]
  by (cases "py_float B v") (auto simp: as_float_def split: py_error.splits)

lemma range_bounds_error: "range_bounds B raw implied = Inl e \<Longrightarrow> e = OverflowError"
  by (auto simp: range_bounds_def split: option.splits sum.splits dest: as_float_error)

lemma sanitize_ValueError:
  assumes "sanitize_analysis_payload B payload b rr hits = Inl ValueError"
  obtains implied lo hi where
    "as_float B (dict_get payload ''implied_multiple'') b = Inr implied"
    "range_bounds B (dict_get payload ''range'') implied = Inr (lo, hi)"
    "hits_without_citations rr hits (payload_comps B payload)"
proof -
  obtain implied where i: "as_float B (dict_get payload ''implied_multiple'') b = Inr implied"
    using assms as_float_error[of B "dict_get payload ''implied_multiple''" b]
    by (cases "as_float B (dict_get payload ''implied_multiple'') b")
      (auto simp: sanitize_analysis_payload_def Let_def)
  obtain lo hi where r: "range_bounds B (dict_get payload ''range'') implied = Inr (lo, hi)"
    using assms i range_bounds_error[of B "dict_get payload ''range''" implied]
    by (cases "range_bounds B (dict_get payload ''range'') implied")
      (auto simp: sanitize_analysis_payload_def Let_def)
  have "hits_without_citations rr hits (payload_comps B payload)"
    using assms i r as_float_error[of B "dict_get payload ''confidence''" "Fin (9 / 20)"]
    by (cases "as_float B (dict_get payload ''confidence'') (Fin (9 / 20))")
      (auto simp: sanitize_analysis_payload_def Let_def payload_comps_def split: if_splits)
  with i r show ?thesis by (rule that)
qed

lemma fallback_none_usable:
  "\<not> list_ex usable_chunk comps \<Longrightarrow> fallback_citations B comps = Inr []"
  by (simp add: fallback_citations_def fallback_loop_none_usable)

lemma fallback_citations_props:
  assumes "fallback_citations B comps = Inr cs" and "list_ex usable_chunk comps"
  shows "1 \<le> length cs \<and> length cs \<le> 3 \<and> list_all is_citation cs"
proof -
  have "length cs \<le> 3 \<and> list_all is_citation cs
       \<and> (cs = [] \<longleftrightarrow> [] = ([]::pyval list) \<and> \<not> list_ex usable_chunk comps)"
    by (rule fallback_loop_props) (use assms in \<open>simp_all add: fallback_citations_def\<close>)
  with assms(2) show ?thesis
    by (cases cs) auto
qed

lemma inject_fallback_eq:
  assumes "py_list (py_or (dict_get raw ''risk_flags'') (PList [])) = Inr flags"
    and "confidence_needs_cap raw = Inr cap"
  shows "inject_fallback raw cs =
     Inr (let raw2 = dict_set (dict_set raw ''comps_used'' (PList cs)) ''risk_flags''
                       (PList (if PStr ''fallback_citations_injected'' \<in> set flags then flags
                               else flags @ [PStr ''fallback_citations_injected'']))
          in if cap then dict_set raw2 ''confidence'' (PFloat (Fin 0.55)) else raw2)"
proof -
  have c: "confidence_needs_cap (dict_set (dict_set raw ''comps_used'' (PList cs)) ''risk_flags'' v)
           = confidence_needs_cap raw" for v
    by (simp add: confidence_needs_cap_def dict_get_dict_set dict_get_default_dict_set)
  show ?thesis
    using assms
    by (simp add: inject_fallback_def Let_def dict_get_dict_set c)
qed


lemma clamp_055: "py_max (Fin 0) (py_min (Fin 1) (Fin (11 / 20))) = Fin (11 / 20)"
  by (simp add: py_max_def py_min_def fgt_def)

lemma sanitize_recovered:
  assumes i: "as_float B (dict_get raw ''implied_multiple'') b = Inr implied"
    and rg: "range_bounds B (dict_get raw ''range'') implied = Inr (lo, hi)"
    and f1: "dict_get raw2 ''implied_multiple'' = dict_get raw ''implied_multiple''"
    and f2: "dict_get raw2 ''range'' = dict_get raw ''range''"
    and f3: "dict_get raw2 ''comps_used'' = PList cs"
    and f4: "dict_get raw2 ''risk_flags'' = PList flags1"
    and fl: "PStr ''fallback_citations_injected'' \<in> set flags1"
    and cf: "as_float B (dict_get raw2 ''confidence'') (Fin (9 / 20)) = Inr c"
    and cit: "list_all is_citation cs" and ne: "cs \<noteq> []"
  shows "\<exists>r. sanitize_analysis_payload B raw2 b rr hits = Inr r
     \<and> analysis_comps r = clean_comps B (PList cs)
     \<and> length (analysis_comps r) = length cs
     \<and> count_list (result_flags r) (PStr ''fallback_citations_injected'') = 1
     \<and> dict_get r ''confidence'' = PFloat (py_max (Fin 0) (py_min (Fin 1) c))"
proof -
  let ?cc = "clean_comps B (PList cs)"
  have len: "length ?cc = length cs"
    by (rule clean_citations_length[OF cit])
  with ne have cne: "?cc \<noteq> []"
    by auto
  have pc: "payload_comps B raw2 = ?cc"
    using ne by (simp add: payload_comps_def f3 py_or_def)
  have pr: "payload_risks B raw2 = map (py_str B) (filter (\<lambda>entry. entry \<noteq> PNone) flags1)"
    using fl by (auto simp: payload_risks_def f4 py_or_def coerce_risks_def)
  have "PStr ''fallback_citations_injected'' \<in> set (filter (\<lambda>entry. entry \<noteq> PNone) flags1)"
    using fl by simp
  then have "py_str B (PStr ''fallback_citations_injected'') \<in> set (payload_risks B raw2)"
    unfolding pr set_map by (rule imageI)
  then have fin: "''fallback_citations_injected'' \<in> set (payload_risks B raw2)"
    by simp
  have nh: "\<not> hits_without_citations rr hits ?cc"
    using cne by (simp add: hits_without_citations_def)
  let ?r = "build_result b (payload_conclusion B raw2) (payload_reasoning raw2) implied lo hi ?cc
              (payload_risks B raw2) c"
  have s: "sanitize_analysis_payload B raw2 b rr hits = Inr ?r"
    using i rg cf nh pc
    by (simp add: sanitize_analysis_payload_def Let_def f1 f2 payload_comps_def[symmetric]
        payload_risks_def[symmetric] payload_conclusion_def[symmetric]
        payload_reasoning_def[symmetric])
  have a: "analysis_comps ?r = ?cc"
    by (rule build_result_comps)
  have k: "count_list (result_flags ?r) (PStr ''fallback_citations_injected'') = 1"
    unfolding build_result_flags using cne fin by (simp add: count_dedupe)
  have d: "dict_get ?r ''confidence'' = PFloat (py_max (Fin 0) (py_min (Fin 1) c))"
    by (simp add: build_result_nonempty[OF cne] dict_get_simps)
  show ?thesis
    using s a k d len by (intro exI[of _ ?r]) simp
qed

text \<open>The equations that evaluate a sanitizer run on a concrete payload.\<close>

lemmas sanitize_eval =
  sanitize_analysis_payload_def dict_get_simps as_float_def range_bounds_def
  clean_comps_def clean_comp_def List.map_filter_def py_or_def coerce_risks_def
  hits_without_citations_def build_result_def py_max_def py_min_def fgt_def fsub_def
  round_val_def round_places_def round_half_even_def float_max_int_def Let_def

text \<open>The equations that evaluate the recovery on concrete inputs.\<close>

lemmas recovery_eval =
  sanitize_with_fallback_def fallback_citations_def source_name_of_def inject_fallback_def
  confidence_needs_cap_def dict_get_default_def usable_chunk_def

section \<open>Comparisons of finite floats, evaluation of the baseline\<close>




section \<open>The cases of the coercion\<close>

lemma float_or_seed_cases:
  assumes "dict_index seed k = Inr sv"
  shows "float_or_seed B parsed seed k = Inl OverflowError
       \<or> float_or_seed B parsed seed k =
           Inr (case py_float B (dict_get_default parsed k sv) of Inr f \<Rightarrow> PFloat f | Inl e \<Rightarrow> sv)"
  using py_float_errors[of B "dict_get_default parsed k sv"]
  by (cases "py_float B (dict_get_default parsed k sv)")
    (auto simp: float_or_seed_def assms)

lemma unpack_range_errors:
  "unpack_range B v = Inl e \<Longrightarrow> e = TypeError \<or> e = ValueError \<or> e = OverflowError"
  by (cases v)
    (auto simp: unpack_range_def split: list.splits sum.splits dest: py_float_errors)

lemma computed_range_cases:
  assumes "dict_index seed ''range'' = Inr sv"
  shows "computed_range B parsed seed = Inl OverflowError
       \<or> computed_range B parsed seed =
           Inr (case unpack_range B (dict_get_default parsed ''range'' sv) of Inr t \<Rightarrow> t | Inl e \<Rightarrow> sv)"
  using unpack_range_errors[of B "dict_get_default parsed ''range'' sv"]
  by (cases "unpack_range B (dict_get_default parsed ''range'' sv)")
    (auto simp: computed_range_def assms)

lemmas coerce_eval =
  coerce_response_def coerce_parsed_def float_or_seed_def computed_range_def unpack_range_def
  dict_index_def dict_get_default_def comp_names_def float_max_int_def

section \<open>The hard failure and the evidence rule\<close>

text \<open>
  C10. In \<open>analyze_core\<close> the flag handed to the sanitizer is the keyword test or-ed with
  "any hits", and the hit count is the number of retrieved chunks. So for every question,
  every retrieval result and every surviving citation list, the sanitizer's hard-failure
  condition is the condition "hits and no citations", which is also exactly when
  \<open>enforce_evidence_rule\<close> raises on an analysis carrying that citation list.
\<close>

theorem hard_failure_is_evidence_rule:
  "hits_without_citations (core_retrieval_required question comps) (core_retrieval_hits comps)
       comps_used
     = (core_retrieval_hits comps > 0 \<and> comps_used = [])
   \<and> (enforce_evidence_rule analysis (core_retrieval_hits comps) = Inl ValueError)
     = (core_retrieval_hits comps > 0 \<and> analysis_comps analysis = [])"
  by (auto simp: hits_without_citations_def core_retrieval_required_def
      enforce_evidence_rule_def)

theorem hard_failure_is_evidence_rule_witness:
  "hits_without_citations
       (core_retrieval_required (Some ''Is this valuation reasonable?'')
          [[(''chunk_id'', PStr ''c1'')]])
       (core_retrieval_hits [[(''chunk_id'', PStr ''c1'')]]) []
   \<and> enforce_evidence_rule [(''comps_used'', PList [])]
         (core_retrieval_hits [[(''chunk_id'', PStr ''c1'')]]) = Inl ValueError"
  using hard_failure_is_evidence_rule
    [of "Some ''Is this valuation reasonable?''" "[[(''chunk_id'', PStr ''c1'')]]" "[]"
        "[(''comps_used'', PList [])]"]
  by (simp add: core_retrieval_hits_def analysis_comps_def dict_get_def)

section \<open>What holds of every sanitizer run\<close>

text \<open>
  When no numeric field overflows, the hard failure is the only way out by an exception.
  The confidence of a result always lies in \<open>[0, 1]\<close>, and the ordering step orders
  every pair of bounds that holds no NaN.
\<close>

lemma sanitize_raises_only_hard_failure:
  assumes "numeric_fields_convert B payload"
  shows "(sanitize_analysis_payload B payload b rr hits = Inl ValueError)
           = hits_without_citations rr hits (payload_comps B payload)"
    and "(\<exists>r. sanitize_analysis_payload B payload b rr hits = Inr r)
           = (\<not> hits_without_citations rr hits (payload_comps B payload))"
proof -
  obtain implied lo hi c where
    s: "sanitize_analysis_payload B payload b rr hits =
       (if hits_without_citations rr hits (payload_comps B payload) then Inl ValueError
        else Inr (build_result b (payload_conclusion B payload) (payload_reasoning payload)
                    implied lo hi (payload_comps B payload) (payload_risks B payload) c))"
    by (rule sanitize_total[OF assms])
  show "(sanitize_analysis_payload B payload b rr hits = Inl ValueError)
           = hits_without_citations rr hits (payload_comps B payload)"
    unfolding s by simp
  show "(\<exists>r. sanitize_analysis_payload B payload b rr hits = Inr r)
           = (\<not> hits_without_citations rr hits (payload_comps B payload))"
    unfolding s by simp
qed

lemma clamp_bounds: "fle (Fin 0) (py_max (Fin 0) (py_min (Fin 1) c)) \<and> fle (py_max (Fin 0) (py_min (Fin 1) c)) (Fin 1)"
  by (cases c) (auto simp: py_max_def py_min_def fgt_def fle_def)

lemma clamp_cap_bounds:
  "fle (Fin 0) (py_min (py_max (Fin 0) (py_min (Fin 1) c)) (Fin (1 / 2)))
   \<and> fle (py_min (py_max (Fin 0) (py_min (Fin 1) c)) (Fin (1 / 2))) (Fin 1)"
  by (cases c) (auto simp: py_max_def py_min_def fgt_def fle_def)

lemma sanitize_confidence_in_unit_interval:
  assumes "sanitize_analysis_payload B payload b rr hits = Inr r"
  shows "\<exists>c. dict_get r ''confidence'' = PFloat c \<and> fle (Fin 0) c \<and> fle c (Fin 1)"
proof -
  obtain implied lo hi c where
    r: "r = build_result b (payload_conclusion B payload) (payload_reasoning payload) implied lo hi
           (payload_comps B payload) (payload_risks B payload) c"
    and "\<not> hits_without_citations rr hits (payload_comps B payload)"
    by (rule sanitize_Inr_build[OF assms])
  show ?thesis
  proof (cases "payload_comps B payload = []")
    case True
    show ?thesis
      unfolding r True build_result_nil using clamp_cap_bounds[of c]
      by (simp add: dict_get_simps)
  next
    case False
    show ?thesis
      unfolding r build_result_nonempty[OF False] using clamp_bounds[of c]
      by (simp add: dict_get_simps)
  qed
qed

lemma swap_ordered:
  "\<lbrakk>lo \<noteq> NaN; hi \<noteq> NaN\<rbrakk> \<Longrightarrow>
   fle (round_val (if fgt lo hi then hi else lo)) (round_val (if fgt lo hi then lo else hi))"
  by (cases lo; cases hi)
    (auto simp: fgt_def fle_def round_val_def not_less round_places_mono less_imp_le)

section \<open>Inputs on which the sanitizer leaves its contract\<close>

text \<open>
  C1. \<open>_as_float\<close> catches \<open>TypeError\<close> and \<open>ValueError\<close> only. An \<open>implied_multiple\<close> that
  is an int too large for a double makes \<open>float\<close> raise \<open>OverflowError\<close>, which leaves
  the sanitizer although the hard-failure condition is false (no retrieval required, no
  hits). The result does not depend on the library functions.
\<close>

theorem sanitize_overflow_escapes:
  "\<forall>B. sanitize_analysis_payload B [(''implied_multiple'', PInt (10 ^ 400))] (Fin 6) False 0
        = Inl OverflowError"
  by (simp add: sanitize_analysis_payload_def dict_get_def as_float_def float_max_int_def)

text \<open>
  C3. A NaN lower bound passes the ordering step, because \<open>lo > hi\<close> is false for NaN:
  with one valid citation the result carries the range \<open>[nan, 1.0]\<close>, and
  \<open>range[0] <= range[1]\<close> is false on it.
\<close>

theorem sanitize_nan_range_unordered:
  "\<forall>B. sanitize_analysis_payload B
          [(''range'', PList [PFloat NaN, PFloat (Fin 1)]),
           (''comps_used'', PList [PDict [(''source_id'', PStr ''chunk:a'')]])]
          (Fin 6) False 0
        = Inr [(''conclusion'', PStr ''undetermined''),
               (''reasoning'', PStr []),
               (''range'', PList [PFloat NaN, PFloat (Fin 1)]),
               (''implied_multiple'', PFloat (Fin 6)),
               (''comps_used'', PList [PDict [(''source_id'', PStr ''chunk:a'')]]),
               (''risk_flags'', PList []),
               (''confidence'', PFloat (Fin 0.45))]
      \<and> \<not> fle NaN (Fin 1)"
  by (simp add: sanitize_analysis_payload_def dict_get_def as_float_def range_bounds_def
      clean_comps_def clean_comp_def List.map_filter_def py_or_def coerce_risks_def
      hits_without_citations_def build_result_def py_max_def py_min_def fgt_def fle_def
      round_val_def round_places_def round_half_even_def)

section \<open>The guardrail for an empty citation list\<close>




section \<open>The flag \<open>no_citable_evidence\<close>\<close>

text \<open>
  C4 (amended). On every returned result the flag occurs at most once. It occurs when
  \<open>comps_used\<close> is empty, and with a non-empty \<open>comps_used\<close> it occurs exactly when the
  payload's own risk flags already carry it.
\<close>

theorem flag_count_after_sanitize:
  assumes "sanitize_analysis_payload B payload b retrieval_required retrieval_hits = Inr r"
  shows "analysis_comps r = payload_comps B payload
     \<and> count_list (result_flags r) (PStr ''no_citable_evidence'') =
         (if analysis_comps r = [] \<or> ''no_citable_evidence'' \<in> set (payload_risks B payload)
          then 1 else 0)"
proof -
  obtain implied lo hi c where
    r: "r = build_result b (payload_conclusion B payload) (payload_reasoning payload) implied lo hi
           (payload_comps B payload) (payload_risks B payload) c"
    and "\<not> hits_without_citations retrieval_required retrieval_hits (payload_comps B payload)"
    by (rule sanitize_Inr_build[OF assms])
  show ?thesis
    unfolding r build_result_flags build_result_comps count_dedupe
    by (cases "payload_comps B payload = []") auto
qed

text \<open>The witness is Scenario C: two citations survive and no flag is added.\<close>

theorem flag_count_after_sanitize_witness:
  "\<forall>B. sanitize_analysis_payload B scenario_c (Fin 6) True 2 = Inr result_c
      \<and> analysis_comps result_c = payload_comps B scenario_c
      \<and> count_list (result_flags result_c) (PStr ''no_citable_evidence'') = 0"
proof
  fix B
  have s: "sanitize_analysis_payload B scenario_c (Fin 6) True 2 = Inr result_c"
    by (simp add: scenario_c_def result_c_def sanitize_eval)
  have n: "analysis_comps result_c \<noteq> []"
    by (simp add: result_c_def analysis_comps_def dict_get_simps)
  have f: "''no_citable_evidence'' \<notin> set (payload_risks B scenario_c)"
    by (simp add: payload_risks_def scenario_c_def dict_get_simps py_or_def coerce_risks_def)
  show "sanitize_analysis_payload B scenario_c (Fin 6) True 2 = Inr result_c
      \<and> analysis_comps result_c = payload_comps B scenario_c
      \<and> count_list (result_flags result_c) (PStr ''no_citable_evidence'') = 0"
    using s n f flag_count_after_sanitize[OF s] by simp
qed

text \<open>
  C4 as stated fails on a payload that carries the flag next to a valid citation: the
  result keeps the citation and the flag, so the flag is present while \<open>comps_used\<close> is
  not empty.
\<close>

theorem flag_biconditional_counterexample:
  "\<forall>B. sanitize_analysis_payload B flagged_payload (Fin 6) True 1
        = Inr [(''conclusion'', PStr ''undetermined''),
               (''reasoning'', PStr []),
               (''range'', PList [PFloat (Fin 5.5), PFloat (Fin 6.5)]),
               (''implied_multiple'', PFloat (Fin 6)),
               (''comps_used'', PList [PDict [(''source_id'', PStr ''chunk:a'')]]),
               (''risk_flags'', PList [PStr ''no_citable_evidence'']),
               (''confidence'', PFloat (Fin 0.45))]"
  by (simp add: flagged_payload_def sanitize_eval)

section \<open>Idempotence\<close>

text \<open>
  C5. Sanitizing a result again with the same arguments returns the same result. The
  one fact used of the library is that \<open>str\<close> of a value that is not a string is never
  the empty string. Results are compared structurally.
\<close>

theorem sanitize_idempotent:
  assumes ne: "\<forall>v. str_of B v \<noteq> []"
    and s: "sanitize_analysis_payload B payload b retrieval_required retrieval_hits = Inr r"
  shows "sanitize_analysis_payload B r b retrieval_required retrieval_hits = Inr r"
proof -
  obtain implied lo hi c where
    r: "r = build_result b (payload_conclusion B payload) (payload_reasoning payload) implied lo hi
           (payload_comps B payload) (payload_risks B payload) c"
    and nh: "\<not> hits_without_citations retrieval_required retrieval_hits (payload_comps B payload)"
    by (rule sanitize_Inr_build[OF s])
  have cc: "clean_comps B (PList (payload_comps B payload)) = payload_comps B payload"
    unfolding payload_comps_def by (rule clean_comps_idem[OF ne])
  let ?concl = "payload_conclusion B payload" and ?reas = "payload_reasoning payload"
    and ?risks = "payload_risks B payload"
  show ?thesis
  proof (cases "payload_comps B payload = []")
    case True
    let ?L = "round_val (if fgt (py_max (Fin 0) (fsub b (Fin (1 / 2)))) (fadd b (Fin (1 / 2)))
                                   then fadd b (Fin (1 / 2))
                                   else py_max (Fin 0) (fsub b (Fin (1 / 2))))"
    let ?H = "round_val (if fgt (py_max (Fin 0) (fsub b (Fin (1 / 2)))) (fadd b (Fin (1 / 2)))
                                   then py_max (Fin 0) (fsub b (Fin (1 / 2)))
                                   else fadd b (Fin (1 / 2)))"
    let ?ds = "dedupe (if ''no_citable_evidence'' \<in> set ?risks then ?risks
                                   else ?risks @ [''no_citable_evidence''])"
    let ?C = "py_min (py_max (Fin 0) (py_min (Fin 1) c)) (Fin (1 / 2))"
    have r0: "r = build_result b ?concl ?reas implied lo hi [] ?risks c"
      using r True by simp
    have e: "r = [(''conclusion'', PStr ?concl), (''reasoning'', PStr ?reas),
                  (''range'', PList [PFloat ?L, PFloat ?H]),
                  (''implied_multiple'', PFloat (round_val b)),
                  (''comps_used'', PList []),
                  (''risk_flags'', PList (map PStr ?ds)),
                  (''confidence'', PFloat ?C)]"
      unfolding r0 by (rule build_result_nil)
    have c0: "clean_comps B (PList []) = []"
      using cc True by simp
    have n0: "\<not> hits_without_citations retrieval_required retrieval_hits []"
      using nh True by simp
    have "sanitize_analysis_payload B r b retrieval_required retrieval_hits
            = Inr (build_result b ?concl ?reas (round_val b) ?L ?H [] ?ds ?C)"
      by (subst e) (rule sanitize_of_result[OF c0 n0])
    also have "build_result b ?concl ?reas (round_val b) ?L ?H [] ?ds ?C = r"
      unfolding r0 by (rule build_result_idem_nil)
    finally show ?thesis .
  next
    case False
    let ?comps = "payload_comps B payload"
    let ?L = "round_val (if fgt lo hi then hi else lo)"
    let ?H = "round_val (if fgt lo hi then lo else hi)"
    let ?C = "py_max (Fin 0) (py_min (Fin 1) c)"
    have e: "r = [(''conclusion'', PStr ?concl), (''reasoning'', PStr ?reas),
                  (''range'', PList [PFloat ?L, PFloat ?H]),
                  (''implied_multiple'', PFloat (round_val implied)),
                  (''comps_used'', PList ?comps),
                  (''risk_flags'', PList (map PStr (dedupe ?risks))),
                  (''confidence'', PFloat ?C)]"
      unfolding r by (rule build_result_nonempty[OF False])
    have "sanitize_analysis_payload B r b retrieval_required retrieval_hits
            = Inr (build_result b ?concl ?reas (round_val implied) ?L ?H ?comps (dedupe ?risks) ?C)"
      by (subst e) (rule sanitize_of_result[OF cc nh])
    also have "build_result b ?concl ?reas (round_val implied) ?L ?H ?comps (dedupe ?risks) ?C = r"
      unfolding r by (rule build_result_idem_nonempty[OF False])
    finally show ?thesis .
  qed
qed

text \<open>The witness sanitizes Scenario C and then its own result.\<close>

theorem sanitize_idempotent_witness:
  "(\<forall>v. str_of stub_builtins v \<noteq> [])
   \<and> sanitize_analysis_payload stub_builtins scenario_c (Fin 6) True 2 = Inr result_c
   \<and> sanitize_analysis_payload stub_builtins result_c (Fin 6) True 2 = Inr result_c"
proof -
  have ne: "\<forall>v. str_of stub_builtins v \<noteq> []"
    by (simp add: stub_builtins_def)
  have s: "sanitize_analysis_payload stub_builtins scenario_c (Fin 6) True 2 = Inr result_c"
    by (simp add: scenario_c_def result_c_def sanitize_eval)
  show ?thesis
    using ne s sanitize_idempotent[OF ne s] by simp
qed

section \<open>Recovery from the hard failure in \<open>analyze_core\<close>\<close>

text \<open>
  C6 (amended). Let the sanitizer raise its hard failure on the raw output. If no
  retrieved chunk has a usable chunk id, the failure propagates. If one has, and the raw
  output's \<open>risk_flags\<close> can be listed and its confidence is unset or a number, the
  recovery returns a result that holds the citations built from the chunks (between one
  and three), holds \<open>fallback_citations_injected\<close> exactly once, and has confidence 0.55
  when the raw confidence was unset or above 0.6; a raw confidence of at most 0.6 is
  kept (clamped to \<open>[0, 1]\<close>), also when it is above 0.55.
\<close>

theorem recovery_after_hard_failure:
  assumes hard: "sanitize_analysis_payload B raw_output b rr hits = Inl ValueError"
  shows "(\<not> list_ex usable_chunk comps \<longrightarrow>
            sanitize_with_fallback B raw_output comps b rr hits = Inl ValueError)
     \<and> (list_ex usable_chunk comps
          \<and> fallback_citations B comps = Inr cs
          \<and> py_list (py_or (dict_get raw_output ''risk_flags'') (PList [])) = Inr flags
          \<and> confidence_needs_cap raw_output = Inr cap
          \<and> as_float B (dict_get raw_output ''confidence'') (Fin 0.45) = Inr c0
        \<longrightarrow> 1 \<le> length cs \<and> length cs \<le> 3
          \<and> cap = (dict_get raw_output ''confidence'' = PNone
                    \<or> py_gt_const (dict_get raw_output ''confidence'') 0.6 = Inr True)
          \<and> (\<exists>r. sanitize_with_fallback B raw_output comps b rr hits = Inr r
                \<and> analysis_comps r = clean_comps B (PList cs)
                \<and> length (analysis_comps r) = length cs
                \<and> count_list (result_flags r) (PStr ''fallback_citations_injected'') = 1
                \<and> dict_get r ''confidence'' =
                    PFloat (if cap then Fin 0.55 else py_max (Fin 0) (py_min (Fin 1) c0))))"
proof (intro conjI impI)
  assume "\<not> list_ex usable_chunk comps"
  then show "sanitize_with_fallback B raw_output comps b rr hits = Inl ValueError"
    by (simp add: sanitize_with_fallback_def hard fallback_none_usable)
next
  assume a: "list_ex usable_chunk comps
          \<and> fallback_citations B comps = Inr cs
          \<and> py_list (py_or (dict_get raw_output ''risk_flags'') (PList [])) = Inr flags
          \<and> confidence_needs_cap raw_output = Inr cap
          \<and> as_float B (dict_get raw_output ''confidence'') (Fin 0.45) = Inr c0"
  then have us: "list_ex usable_chunk comps" and fc: "fallback_citations B comps = Inr cs"
    and pl: "py_list (py_or (dict_get raw_output ''risk_flags'') (PList [])) = Inr flags"
    and cn: "confidence_needs_cap raw_output = Inr cap"
    and c0: "as_float B (dict_get raw_output ''confidence'') (Fin (9 / 20)) = Inr c0"
    by simp_all
  from fallback_citations_props[OF fc us]
  have l1: "1 \<le> length cs" and l3: "length cs \<le> 3" and cit: "list_all is_citation cs"
    by simp_all
  from l1 have ne: "cs \<noteq> []"
    by auto
  show "1 \<le> length cs" by (rule l1)
  show "length cs \<le> 3" by (rule l3)
  show "cap = (dict_get raw_output ''confidence'' = PNone
                    \<or> py_gt_const (dict_get raw_output ''confidence'') 0.6 = Inr True)"
    using cn by (auto simp: confidence_needs_cap_def dict_get_default_def dict_get_def
        split: if_splits option.splits)
  obtain implied lo hi where
    i: "as_float B (dict_get raw_output ''implied_multiple'') b = Inr implied"
    and rg: "range_bounds B (dict_get raw_output ''range'') implied = Inr (lo, hi)"
    by (rule sanitize_ValueError[OF hard])
  let ?flags1 = "if PStr ''fallback_citations_injected'' \<in> set flags then flags
                 else flags @ [PStr ''fallback_citations_injected'']"
  let ?raw1 = "dict_set (dict_set raw_output ''comps_used'' (PList cs)) ''risk_flags'' (PList ?flags1)"
  let ?raw2 = "if cap then dict_set ?raw1 ''confidence'' (PFloat (Fin 0.55)) else ?raw1"
  let ?c = "if cap then Fin (11 / 20) else c0"
  have inj: "inject_fallback raw_output cs = Inr ?raw2"
    using inject_fallback_eq[OF pl cn, of cs] by (simp add: Let_def)
  have swf: "sanitize_with_fallback B raw_output comps b rr hits
               = sanitize_analysis_payload B ?raw2 b rr hits"
    using ne by (simp add: sanitize_with_fallback_def hard fc inj)
  have f1: "dict_get ?raw2 ''implied_multiple'' = dict_get raw_output ''implied_multiple''"
    and f2: "dict_get ?raw2 ''range'' = dict_get raw_output ''range''"
    and f3: "dict_get ?raw2 ''comps_used'' = PList cs"
    and f4: "dict_get ?raw2 ''risk_flags'' = PList ?flags1"
    by (simp_all add: dict_get_dict_set)
  have fl: "PStr ''fallback_citations_injected'' \<in> set ?flags1"
    by simp
  have cf: "as_float B (dict_get ?raw2 ''confidence'') (Fin (9 / 20)) = Inr ?c"
    using c0 by (simp add: dict_get_dict_set as_float_def)
  from sanitize_recovered[OF i rg f1 f2 f3 f4 fl cf cit ne, of rr hits]
  obtain r where r: "sanitize_analysis_payload B ?raw2 b rr hits = Inr r"
    and r1: "analysis_comps r = clean_comps B (PList cs)"
    and r2: "length (analysis_comps r) = length cs"
    and r3: "count_list (result_flags r) (PStr ''fallback_citations_injected'') = 1"
    and r4: "dict_get r ''confidence'' = PFloat (py_max (Fin 0) (py_min (Fin 1) ?c))"
    by blast
  have r5: "dict_get r ''confidence'' =
              PFloat (if cap then Fin 0.55 else py_max (Fin 0) (py_min (Fin 1) c0))"
    using r4 by (simp add: clamp_055)
  show "\<exists>r. sanitize_with_fallback B raw_output comps b rr hits = Inr r
                \<and> analysis_comps r = clean_comps B (PList cs)
                \<and> length (analysis_comps r) = length cs
                \<and> count_list (result_flags r) (PStr ''fallback_citations_injected'') = 1
                \<and> dict_get r ''confidence'' =
                    PFloat (if cap then Fin 0.55 else py_max (Fin 0) (py_min (Fin 1) c0))"
    using swf r r1 r2 r3 r5 by (intro exI[of _ r]) simp
qed

text \<open>The witness: confidence 0.9 and one retrieved chunk.\<close>

theorem recovery_after_hard_failure_witness:
  "\<forall>B. sanitize_analysis_payload B overconfident_output (Fin 6) True 1 = Inl ValueError
      \<and> list_ex usable_chunk one_chunk
      \<and> fallback_citations B one_chunk = Inr [chunk_citation]
      \<and> py_list (py_or (dict_get overconfident_output ''risk_flags'') (PList [])) = Inr []
      \<and> confidence_needs_cap overconfident_output = Inr True
      \<and> as_float B (dict_get overconfident_output ''confidence'') (Fin 0.45) = Inr (Fin 0.9)
      \<and> (\<exists>r. sanitize_with_fallback B overconfident_output one_chunk (Fin 6) True 1 = Inr r
             \<and> length (analysis_comps r) = 1
             \<and> count_list (result_flags r) (PStr ''fallback_citations_injected'') = 1
             \<and> dict_get r ''confidence'' = PFloat (Fin 0.55))"
proof
  fix B
  have h: "sanitize_analysis_payload B overconfident_output (Fin 6) True 1 = Inl ValueError"
    by (simp add: overconfident_output_def sanitize_eval)
  have u: "list_ex usable_chunk one_chunk"
    by (simp add: one_chunk_def usable_chunk_def dict_get_simps py_or_def)
  have f: "fallback_citations B one_chunk = Inr [chunk_citation]"
    by (simp add: one_chunk_def chunk_citation_def recovery_eval dict_get_simps py_or_def)
  have p: "py_list (py_or (dict_get overconfident_output ''risk_flags'') (PList [])) = Inr []"
    by (simp add: overconfident_output_def dict_get_simps py_or_def)
  have c: "confidence_needs_cap overconfident_output = Inr True"
    by (simp add: overconfident_output_def confidence_needs_cap_def dict_get_default_def
        dict_get_simps fgt_def)
  have a: "as_float B (dict_get overconfident_output ''confidence'') (Fin 0.45) = Inr (Fin 0.9)"
    by (simp add: overconfident_output_def dict_get_simps as_float_def)
  show "sanitize_analysis_payload B overconfident_output (Fin 6) True 1 = Inl ValueError
      \<and> list_ex usable_chunk one_chunk
      \<and> fallback_citations B one_chunk = Inr [chunk_citation]
      \<and> py_list (py_or (dict_get overconfident_output ''risk_flags'') (PList [])) = Inr []
      \<and> confidence_needs_cap overconfident_output = Inr True
      \<and> as_float B (dict_get overconfident_output ''confidence'') (Fin 0.45) = Inr (Fin 0.9)
      \<and> (\<exists>r. sanitize_with_fallback B overconfident_output one_chunk (Fin 6) True 1 = Inr r
             \<and> length (analysis_comps r) = 1
             \<and> count_list (result_flags r) (PStr ''fallback_citations_injected'') = 1
             \<and> dict_get r ''confidence'' = PFloat (Fin 0.55))"
    using h u f p c a
      recovery_after_hard_failure[OF h, of one_chunk "[chunk_citation]" "[]" True "Fin 0.9"]
    by auto
qed

text \<open>
  C6 as stated fails for a confidence between 0.55 and 0.6: the raw output with
  confidence 0.58 goes through the recovery and keeps 0.58.
\<close>

theorem confidence_cap_counterexample:
  "\<forall>B. sanitize_analysis_payload B uncited_output (Fin 6) True 1 = Inl ValueError
      \<and> sanitize_with_fallback B uncited_output one_chunk (Fin 6) True 1
          = Inr [(''conclusion'', PStr ''fair''),
                 (''reasoning'', PStr []),
                 (''range'', PList [PFloat (Fin 5.5), PFloat (Fin 6.5)]),
                 (''implied_multiple'', PFloat (Fin 6)),
                 (''comps_used'',
                    PList [PDict [(''source_id'', PStr ''chunk:c1''), (''name'', PStr ''10-K'')]]),
                 (''risk_flags'', PList [PStr ''fallback_citations_injected'']),
                 (''confidence'', PFloat (Fin 0.58))]"
  by (simp add: uncited_output_def one_chunk_def recovery_eval sanitize_eval)

section \<open>The baseline heuristic\<close>




section \<open>The complexity classifier\<close>

text \<open>
  C8 (amended). \<open>_classify_request\<close> returns \<open>hard\<close> exactly when the lower-cased question
  contains a term of \<open>hard_terms\<close>, or one of the deal's price, ebitda and industry is
  missing or falsy, or the question has more than one question mark or more than 40
  words; otherwise it returns \<open>easy\<close>. So a deal with a missing fundamental is \<open>hard\<close> for
  every question. The lexicon holds \<open>compare\<close>, \<open>fx\<close>, \<open>portfolio\<close>, \<open>multi\<close>, \<open>scenario\<close>,
  \<open>sensitivity\<close>, \<open>dcf\<close>, \<open>merger\<close>, \<open>leveraged\<close>, \<open>tax\<close> and \<open>retrieval\<close>; it does not
  hold \<open>comp\<close>.
\<close>

theorem classify_request_hard_iff:
  "(classify_request question deal comps = ''hard'') =
     (list_ex (\<lambda>term. sublist term (lower (case question of None \<Rightarrow> [] | Some q \<Rightarrow> q))) hard_terms
      \<or> \<not> truthy (dict_get deal ''price'') \<or> \<not> truthy (dict_get deal ''ebitda'')
      \<or> \<not> truthy (dict_get deal ''industry'')
      \<or> 1 < count_list (lower (case question of None \<Rightarrow> [] | Some q \<Rightarrow> q)) (CHR ''?'')
      \<or> 40 < split_len (lower (case question of None \<Rightarrow> [] | Some q \<Rightarrow> q)))
   \<and> (classify_request question deal comps = ''hard'' \<or> classify_request question deal comps = ''easy'')
   \<and> (\<not> truthy (dict_get deal ''price'') \<or> \<not> truthy (dict_get deal ''ebitda'')
        \<or> \<not> truthy (dict_get deal ''industry'')
      \<longrightarrow> classify_request question deal comps = ''hard'')
   \<and> ''comp'' \<notin> set hard_terms
   \<and> set [''compare'', ''fx'', ''portfolio'', ''multi'', ''scenario'', ''sensitivity'', ''dcf'',
            ''merger'', ''leveraged'', ''tax'', ''retrieval''] \<subseteq> set hard_terms"
proof -
  have 1: "''comp'' \<notin> set hard_terms"
    by (simp add: hard_terms_def)
  have 2: "set [''compare'', ''fx'', ''portfolio'', ''multi'', ''scenario'', ''sensitivity'', ''dcf'',
            ''merger'', ''leveraged'', ''tax'', ''retrieval''] \<subseteq> set hard_terms"
    by (simp add: hard_terms_def)
  show ?thesis
    using 1 2 by (auto simp: classify_request_def Let_def)
qed

text \<open>The witness is Scenario D: a deal without fundamentals, with and without a question.\<close>

theorem classify_request_hard_iff_witness:
  "\<not> truthy (dict_get bare_deal ''price'')
   \<and> classify_request (Some ''Is this valuation reasonable?'') bare_deal [] = ''hard''
   \<and> classify_request None bare_deal [] = ''hard''"
proof -
  have p: "\<not> truthy (dict_get bare_deal ''price'')"
    by (simp add: bare_deal_def dict_get_simps)
  show ?thesis
    using p classify_request_hard_iff[of "Some ''Is this valuation reasonable?''" bare_deal "[]"]
      classify_request_hard_iff[of None bare_deal "[]"]
    by blast
qed

text \<open>
  C8 as stated fails on its own example: for a complete deal the short single question
  \<open>comp\<close> is classified \<open>easy\<close>.
\<close>

theorem classify_comp_counterexample:
  "classify_request (Some ''comp'') fair_deal [] = ''easy''
   \<and> truthy (dict_get fair_deal ''price'') \<and> truthy (dict_get fair_deal ''ebitda'')
   \<and> truthy (dict_get fair_deal ''industry'')"
  by code_simp

section \<open>Coercion of a backend response\<close>

text \<open>
  C9 (amended). Text that is not valid JSON gives the seed unchanged. Text that decodes to
  an object, with a seed holding all keys, gives (unless a number overflows \<open>float\<close>) a
  result in which \<open>implied_multiple\<close> and \<open>confidence\<close> are the float of the decoded value
  (of the seed's when the key is absent) and the seed's value when that conversion fails;
  \<open>range\<close> is the pair of floats when the value unpacks into two convertible elements and
  the seed's range otherwise; \<open>comps_used\<close> and \<open>risk_flags\<close> are the decoded values as
  they are when the key is present, whatever their shape, and otherwise the list of comp
  names and the seed's risk flags.
\<close>

theorem coerce_response_fields:
  "(json_loads B raw = None \<longrightarrow> coerce_response B raw seed comps = Inr seed)
   \<and> (json_loads B raw = Some (PDict parsed)
        \<and> dict_index seed ''conclusion'' = Inr s_conclusion
        \<and> dict_index seed ''implied_multiple'' = Inr s_implied
        \<and> dict_index seed ''range'' = Inr s_range
        \<and> dict_index seed ''reasoning'' = Inr s_reasoning
        \<and> dict_index seed ''risk_flags'' = Inr s_risk_flags
        \<and> dict_index seed ''confidence'' = Inr s_confidence
      \<longrightarrow> coerce_response B raw seed comps = Inl OverflowError
        \<or> (\<exists>r. coerce_response B raw seed comps = Inr r
              \<and> dict_get r ''implied_multiple'' =
                  (case py_float B (dict_get_default parsed ''implied_multiple'' s_implied) of
                     Inr f \<Rightarrow> PFloat f | Inl e \<Rightarrow> s_implied)
              \<and> dict_get r ''confidence'' =
                  (case py_float B (dict_get_default parsed ''confidence'' s_confidence) of
                     Inr f \<Rightarrow> PFloat f | Inl e \<Rightarrow> s_confidence)
              \<and> dict_get r ''range'' =
                  (case unpack_range B (dict_get_default parsed ''range'' s_range) of
                     Inr t \<Rightarrow> t | Inl e \<Rightarrow> s_range)
              \<and> dict_get r ''comps_used'' =
                  (case map_of parsed ''comps_used'' of
                     Some v \<Rightarrow> v | None \<Rightarrow> PList (comp_names comps))
              \<and> dict_get r ''risk_flags'' =
                  (case map_of parsed ''risk_flags'' of Some v \<Rightarrow> v | None \<Rightarrow> s_risk_flags)
              \<and> dict_get r ''conclusion'' =
                  (case map_of parsed ''conclusion'' of Some v \<Rightarrow> v | None \<Rightarrow> s_conclusion)
              \<and> dict_get r ''reasoning'' =
                  (case map_of parsed ''reasoning'' of Some v \<Rightarrow> v | None \<Rightarrow> s_reasoning)))"
proof (intro conjI impI)
  assume "json_loads B raw = None"
  then show "coerce_response B raw seed comps = Inr seed"
    by (simp add: coerce_response_def)
next
  assume a: "json_loads B raw = Some (PDict parsed)
        \<and> dict_index seed ''conclusion'' = Inr s_conclusion
        \<and> dict_index seed ''implied_multiple'' = Inr s_implied
        \<and> dict_index seed ''range'' = Inr s_range
        \<and> dict_index seed ''reasoning'' = Inr s_reasoning
        \<and> dict_index seed ''risk_flags'' = Inr s_risk_flags
        \<and> dict_index seed ''confidence'' = Inr s_confidence"
  then have j: "json_loads B raw = Some (PDict parsed)"
    and k1: "dict_index seed ''conclusion'' = Inr s_conclusion"
    and k2: "dict_index seed ''implied_multiple'' = Inr s_implied"
    and k3: "dict_index seed ''range'' = Inr s_range"
    and k4: "dict_index seed ''reasoning'' = Inr s_reasoning"
    and k5: "dict_index seed ''risk_flags'' = Inr s_risk_flags"
    and k6: "dict_index seed ''confidence'' = Inr s_confidence"
    by simp_all
  have c: "coerce_response B raw seed comps = coerce_parsed B (PDict parsed) seed comps"
    by (simp add: coerce_response_def j)
  let ?goal = "coerce_response B raw seed comps = Inl OverflowError
        \<or> (\<exists>r. coerce_response B raw seed comps = Inr r
              \<and> dict_get r ''implied_multiple'' =
                  (case py_float B (dict_get_default parsed ''implied_multiple'' s_implied) of
                     Inr f \<Rightarrow> PFloat f | Inl e \<Rightarrow> s_implied)
              \<and> dict_get r ''confidence'' =
                  (case py_float B (dict_get_default parsed ''confidence'' s_confidence) of
                     Inr f \<Rightarrow> PFloat f | Inl e \<Rightarrow> s_confidence)
              \<and> dict_get r ''range'' =
                  (case unpack_range B (dict_get_default parsed ''range'' s_range) of
                     Inr t \<Rightarrow> t | Inl e \<Rightarrow> s_range)
              \<and> dict_get r ''comps_used'' =
                  (case map_of parsed ''comps_used'' of
                     Some v \<Rightarrow> v | None \<Rightarrow> PList (comp_names comps))
              \<and> dict_get r ''risk_flags'' =
                  (case map_of parsed ''risk_flags'' of Some v \<Rightarrow> v | None \<Rightarrow> s_risk_flags)
              \<and> dict_get r ''conclusion'' =
                  (case map_of parsed ''conclusion'' of Some v \<Rightarrow> v | None \<Rightarrow> s_conclusion)
              \<and> dict_get r ''reasoning'' =
                  (case map_of parsed ''reasoning'' of Some v \<Rightarrow> v | None \<Rightarrow> s_reasoning))"
  consider
      (overflow) "float_or_seed B parsed seed ''implied_multiple'' = Inl OverflowError
        \<or> computed_range B parsed seed = Inl OverflowError
        \<or> float_or_seed B parsed seed ''confidence'' = Inl OverflowError"
    | (ok) "float_or_seed B parsed seed ''implied_multiple'' =
             Inr (case py_float B (dict_get_default parsed ''implied_multiple'' s_implied) of
                    Inr f \<Rightarrow> PFloat f | Inl e \<Rightarrow> s_implied)"
           "computed_range B parsed seed =
             Inr (case unpack_range B (dict_get_default parsed ''range'' s_range) of
                    Inr t \<Rightarrow> t | Inl e \<Rightarrow> s_range)"
           "float_or_seed B parsed seed ''confidence'' =
             Inr (case py_float B (dict_get_default parsed ''confidence'' s_confidence) of
                    Inr f \<Rightarrow> PFloat f | Inl e \<Rightarrow> s_confidence)"
    using float_or_seed_cases[OF k2, of B parsed] computed_range_cases[OF k3, of B parsed]
      float_or_seed_cases[OF k6, of B parsed]
    by blast
  then show ?goal
  proof cases
    case overflow
    then have "coerce_response B raw seed comps = Inl OverflowError"
      using float_or_seed_cases[OF k2, of B parsed] computed_range_cases[OF k3, of B parsed]
      unfolding c coerce_parsed_def
      by (auto split: sum.splits)
    then show ?thesis by simp
  next
    case ok
    show ?thesis
      unfolding c coerce_parsed_def
      by (simp add: ok k1 k4 k5 dict_get_simps dict_get_default_def)
  qed
qed

text \<open>
  The witness: undecodable text, and a reply whose multiple and range do not convert.
\<close>

theorem coerce_response_fields_witness:
  "json_loads stub_builtins ''not json'' = None
   \<and> coerce_response stub_builtins ''not json'' triage_seed [] = Inr triage_seed
   \<and> json_loads partial_reply ''{...}'' =
         Some (PDict [(''implied_multiple'', PStr ''n/a''),
                      (''range'', PList [PInt 7, PInt 9, PInt 11]),
                      (''confidence'', PFloat (Fin 0.8))])
   \<and> dict_index triage_seed ''conclusion'' = Inr (PStr ''fair'')
   \<and> dict_index triage_seed ''implied_multiple'' = Inr (PFloat (Fin 9))
   \<and> dict_index triage_seed ''range'' = Inr (PTuple [PFloat (Fin 8), PFloat (Fin 10)])
   \<and> dict_index triage_seed ''reasoning'' = Inr (PStr ''first pass'')
   \<and> dict_index triage_seed ''risk_flags'' = Inr (PList [])
   \<and> dict_index triage_seed ''confidence'' = Inr (PFloat (Fin 0.5))
   \<and> (\<exists>r. coerce_response partial_reply ''{...}'' triage_seed [] = Inr r
          \<and> dict_get r ''implied_multiple'' = PFloat (Fin 9)
          \<and> dict_get r ''confidence'' = PFloat (Fin 0.8)
          \<and> dict_get r ''range'' = PTuple [PFloat (Fin 8), PFloat (Fin 10)]
          \<and> dict_get r ''comps_used'' = PList []
          \<and> dict_get r ''risk_flags'' = PList [])"
proof -
  let ?parsed = "[(''implied_multiple'', PStr ''n/a''),
                  (''range'', PList [PInt 7, PInt 9, PInt 11]),
                  (''confidence'', PFloat (Fin 0.8))]"
  have n: "json_loads stub_builtins ''not json'' = None"
    by (simp add: stub_builtins_def)
  have j: "json_loads partial_reply ''{...}'' = Some (PDict ?parsed)"
    by (simp add: partial_reply_def)
  have k: "dict_index triage_seed ''conclusion'' = Inr (PStr ''fair'')"
    "dict_index triage_seed ''implied_multiple'' = Inr (PFloat (Fin 9))"
    "dict_index triage_seed ''range'' = Inr (PTuple [PFloat (Fin 8), PFloat (Fin 10)])"
    "dict_index triage_seed ''reasoning'' = Inr (PStr ''first pass'')"
    "dict_index triage_seed ''risk_flags'' = Inr (PList [])"
    "dict_index triage_seed ''confidence'' = Inr (PFloat (Fin 0.5))"
    by (simp_all add: triage_seed_def dict_index_def)
  have no: "coerce_response partial_reply ''{...}'' triage_seed [] \<noteq> Inl OverflowError"
    by (simp add: partial_reply_def triage_seed_def coerce_eval)
  have 1: "coerce_response stub_builtins ''not json'' triage_seed [] = Inr triage_seed"
    using n coerce_response_fields[of stub_builtins "''not json''" triage_seed "[]"]
    by blast
  have 2: "\<exists>r. coerce_response partial_reply ''{...}'' triage_seed [] = Inr r
          \<and> dict_get r ''implied_multiple'' = PFloat (Fin 9)
          \<and> dict_get r ''confidence'' = PFloat (Fin 0.8)
          \<and> dict_get r ''range'' = PTuple [PFloat (Fin 8), PFloat (Fin 10)]
          \<and> dict_get r ''comps_used'' = PList []
          \<and> dict_get r ''risk_flags'' = PList []"
    using j k no
      coerce_response_fields[of partial_reply "''{...}''" triage_seed "[]" ?parsed
        "PStr ''fair''" "PFloat (Fin 9)" "PTuple [PFloat (Fin 8), PFloat (Fin 10)]"
        "PStr ''first pass''" "PList []" "PFloat (Fin 0.5)"]
    by (auto simp: partial_reply_def dict_get_default_def unpack_range_def comp_names_def)
  show ?thesis
    using n j k 1 2 by simp
qed

text \<open>
  C9 as stated fails on the reply \<open>{"risk_flags": 5}\<close> with a triage seed: the malformed
  \<open>risk_flags\<close> is kept instead of the seed's list, and the absent \<open>comps_used\<close> becomes
  the list of comp names (here empty), not the seed's \<open>comps_used\<close>.
\<close>

theorem coerce_response_counterexample:
  "coerce_response flags_reply ''{risk_flags: 5}'' triage_seed [] =
     Inr [(''conclusion'', PStr ''fair''),
          (''implied_multiple'', PFloat (Fin 9)),
          (''range'', PTuple [PFloat (Fin 8), PFloat (Fin 10)]),
          (''reasoning'', PStr ''first pass''),
          (''comps_used'', PList []),
          (''risk_flags'', PInt 5),
          (''confidence'', PFloat (Fin 0.5))]
   \<and> dict_get triage_seed ''risk_flags'' = PList []
   \<and> dict_get triage_seed ''comps_used'' = PList [PStr ''Seed Co'']"
  by (simp add: flags_reply_def triage_seed_def coerce_eval dict_get_simps)

end
